theory Spec2Isabelle
  imports
    Complex_Main
    "HOL-Library.Word"
    "HOL-Library.Char_ord"
    "HOL-Library.List_Lexorder"
    "HOL-Library.Multiset"
begin

unbundle bit_operations_syntax

section \<open>Data model (shared/types/form.ts, shared/types/profile.ts)\<close>

text \<open>
  Strings are lists of 8-bit characters; a JavaScript string whose UTF-16 code units all lie
  below 256 is represented unit by unit.  JavaScript numbers that carry a confidence or a
  similarity are read as real numbers (no NaN, no rounding); counters, lengths and
  timestamps are integers or naturals.
\<close>

datatype InputType =
    IT_text | IT_email | IT_tel | IT_url | IT_password
  | IT_number | IT_date | IT_datetime_local | IT_time
  | IT_select | IT_radio | IT_checkbox | IT_textarea
  | IT_hidden | IT_file | IT_unknown

datatype SemanticClass =
    SC_first_name | SC_last_name | SC_full_name
  | SC_email | SC_phone | SC_address_line1 | SC_address_line2
  | SC_city | SC_state | SC_zip | SC_country
  | SC_company | SC_job_title | SC_website
  | SC_username | SC_password
  | SC_date_of_birth | SC_message
  | SC_unknown

text \<open>The optional members of \<open>FieldSignature.attributes\<close>; \<open>None\<close> is \<open>undefined\<close>.\<close>

record Attributes =
  attr_name :: "string option"
  attr_id :: "string option"
  placeholder :: "string option"
  autocomplete :: "string option"
  ariaLabel :: "string option"

text \<open>
  \<open>FieldSignature\<close>.  The member \<open>context\<close> (label, sibling and parent text, screen
  position) is read by none of the functions below and is left out.
\<close>

record FieldSignature =
  fs_id :: string
  domPath :: string
  inputType :: InputType
  normalizedLabel :: string
  semanticClass :: SemanticClass
  attributes :: Attributes

datatype MappingSource = Src_llm | Src_cache | Src_static | Src_learned

record FieldMapping =
  fieldSignature :: FieldSignature
  mvalue :: string
  confidence :: real
  msource :: MappingSource

abbreviation fieldId :: "FieldMapping \<Rightarrow> string" where
  "fieldId m \<equiv> fs_id (fieldSignature m)"

section \<open>JavaScript \<open>Map\<close> with insertion order\<close>

text \<open>
  A \<open>Map<string, V>\<close> is an association list with distinct keys, in insertion order.
  \<open>Map.set\<close> on a key already present replaces the value in place; on a new key it appends.
  \<open>Map.get\<close> is \<open>map_of\<close>; \<open>Array.from(m.values())\<close> is \<open>map snd\<close>.
\<close>

fun map_set :: "'k \<Rightarrow> 'v \<Rightarrow> ('k \<times> 'v) list \<Rightarrow> ('k \<times> 'v) list" where
  "map_set k v [] = [(k, v)]"
| "map_set k v ((k', v') # m) =
     (if k = k' then (k, v) # m else (k', v') # map_set k v m)"

section \<open>ResponseValidator.mergeWithStaticMappings (background/ai/ResponseValidator.ts)\<close>

definition addStatic :: "(string \<times> FieldMapping) list \<Rightarrow> FieldMapping \<Rightarrow> (string \<times> FieldMapping) list" where
  "addStatic result mapping = map_set (fieldId mapping) mapping result"

definition overrideLLM :: "(string \<times> FieldMapping) list \<Rightarrow> FieldMapping \<Rightarrow> (string \<times> FieldMapping) list" where
  "overrideLLM result mapping =
     (case map_of result (fieldId mapping) of
        None \<Rightarrow> map_set (fieldId mapping) mapping result
      | Some existing \<Rightarrow>
          if confidence mapping > confidence existing
          then map_set (fieldId mapping) mapping result
          else result)"

definition mergeWithStaticMappings :: "FieldMapping list \<Rightarrow> FieldMapping list \<Rightarrow> FieldMapping list" where
  "mergeWithStaticMappings llmMappings staticMappings =
     map snd (foldl overrideLLM (foldl addStatic [] staticMappings) llmMappings)"

section \<open>JavaScript string primitives (code units below 256)\<close>

definition toLowerChar :: "char \<Rightarrow> char" where
  \<comment> \<open>\<open>String.prototype.toLowerCase\<close> on one code unit: A-Z and the Latin-1 capitals\<close>
  "toLowerChar c =
     (let n = (of_char c :: int)
      in if (65 \<le> n \<and> n \<le> 90) \<or> (192 \<le> n \<and> n \<le> 222 \<and> n \<noteq> 215)
         then char_of (n + 32) else c)"

definition toLowerCase :: "string \<Rightarrow> string" where
  "toLowerCase s = map toLowerChar s"

definition is_ws :: "char \<Rightarrow> bool" where
  \<comment> \<open>the class \<open>\s\<close>, which is also what \<open>trim\<close> strips: TAB, LF, VT, FF, CR, space, NBSP\<close>
  "is_ws c = ((of_char c :: int) \<in> {9, 10, 11, 12, 13, 32, 160})"

definition is_word :: "char \<Rightarrow> bool" where
  \<comment> \<open>the class \<open>\w\<close>: letters, digits, underscore\<close>
  "is_word c =
     (let n = (of_char c :: int)
      in (48 \<le> n \<and> n \<le> 57) \<or> (65 \<le> n \<and> n \<le> 90) \<or> n = 95 \<or> (97 \<le> n \<and> n \<le> 122))"

definition trim :: "string \<Rightarrow> string" where
  "trim s = rev (dropWhile is_ws (rev (dropWhile is_ws s)))"

fun collapse_ws :: "string \<Rightarrow> string" where
  \<comment> \<open>\<open>.replace(/\s+/g, ' ')\<close>: every maximal run of whitespace becomes one space\<close>
  "collapse_ws [] = []"
| "collapse_ws [c] = (if is_ws c then '' '' else [c])"
| "collapse_ws (c # d # s) =
     (if is_ws c
      then (if is_ws d then collapse_ws (d # s) else CHR '' '' # collapse_ws (d # s))
      else c # collapse_ws (d # s))"

definition strip_punct :: "string \<Rightarrow> string" where
  \<comment> \<open>\<open>.replace(/[^\w\s-]/g, '')\<close>\<close>
  "strip_punct s = filter (\<lambda>c. is_word c \<or> is_ws c \<or> c = CHR ''-'') s"

definition normalizeText :: "string \<Rightarrow> string" where
  \<comment> \<open>shared/utils: lower-case, trim, collapse whitespace, strip punctuation\<close>
  "normalizeText text = strip_punct (collapse_ws (trim (toLowerCase text)))"

fun startsWith :: "string \<Rightarrow> string \<Rightarrow> bool" where
  "startsWith s [] = True"
| "startsWith [] (c # cs) = False"
| "startsWith (x # xs) (c # cs) = (x = c \<and> startsWith xs cs)"

fun str_includes :: "string \<Rightarrow> string \<Rightarrow> bool" where
  \<comment> \<open>\<open>s.includes(sub)\<close>\<close>
  "str_includes [] sub = (sub = [])"
| "str_includes (x # xs) sub = (startsWith (x # xs) sub \<or> str_includes xs sub)"

fun join :: "string \<Rightarrow> string list \<Rightarrow> string" where
  \<comment> \<open>\<open>parts.join(sep)\<close>\<close>
  "join sep [] = []"
| "join sep [p] = p"
| "join sep (p # q # ps) = p @ sep @ join sep (q # ps)"

function splitWs_from :: "string \<Rightarrow> string \<Rightarrow> string list" where
  \<comment> \<open>\<open>s.split(/\s+/)\<close>, with the reversed current piece as accumulator\<close>
  "splitWs_from cur [] = [rev cur]"
| "splitWs_from cur (c # cs) =
     (if is_ws c then rev cur # splitWs_from [] (dropWhile is_ws cs)
      else splitWs_from (c # cur) cs)"
  by pat_completeness auto
termination
  by (relation "measure (\<lambda>(cur, s). length s)")
     (auto simp: le_imp_less_Suc length_dropWhile_le)

definition splitWs :: "string \<Rightarrow> string list" where
  "splitWs s = splitWs_from [] s"

section \<open>Regular expressions of the matcher's pattern table\<close>

text \<open>
  The patterns of \<open>fuzzyPatterns\<close> are alternations of sequences of literal characters,
  \<open>\s*\<close> and one optional character, all under the flag \<open>i\<close>.  A sequence is a list of
  atoms, a pattern a list of sequences; \<open>RegExp.test\<close> looks for a match at any position.
\<close>

datatype atom = Ch char | OptCh char | WsStar

fun match_here :: "atom list \<Rightarrow> string \<Rightarrow> bool" where
  "match_here [] s = True"
| "match_here (Ch c # as) [] = False"
| "match_here (Ch c # as) (x # xs) = (toLowerChar x = toLowerChar c \<and> match_here as xs)"
| "match_here (OptCh c # as) [] = match_here as []"
| "match_here (OptCh c # as) (x # xs) =
     ((toLowerChar x = toLowerChar c \<and> match_here as xs) \<or> match_here as (x # xs))"
| "match_here (WsStar # as) [] = match_here as []"
| "match_here (WsStar # as) (x # xs) =
     ((is_ws x \<and> match_here (WsStar # as) xs) \<or> match_here as (x # xs))"

fun search_seq :: "atom list \<Rightarrow> string \<Rightarrow> bool" where
  "search_seq as [] = match_here as []"
| "search_seq as (x # xs) = (match_here as (x # xs) \<or> search_seq as xs)"

definition lit :: "string \<Rightarrow> atom list" where
  "lit s = map Ch s"

definition regex_test :: "atom list list \<Rightarrow> string \<Rightarrow> bool" where
  "regex_test alternatives s = list_ex (\<lambda>as. search_seq as s) alternatives"

section \<open>Field denylist (shared/constants/fieldDenylist.ts)\<close>

definition FIELD_DENYLIST :: "string list" where
  "FIELD_DENYLIST =
    [''password'', ''passwd'', ''pwd'', ''current-password'', ''new-password'',
     ''confirm-password'', ''confirmpassword'', ''password_confirmation'',
     ''otp'', ''2fa'', ''totp'', ''verification-code'', ''verificationcode'', ''mfa'', ''pin'',
     ''security-code'', ''securitycode'',
     ''cvv'', ''cvc'', ''cvv2'', ''cvc2'', ''card-cvc'', ''card-cvv'', ''security-number'',
     ''token'', ''csrf'', ''nonce'', ''captcha'', ''recaptcha'', ''hcaptcha'',
     ''ssn'', ''social-security'', ''socialsecurity'', ''tax-id'', ''taxid'',
     ''routing-number'', ''routingnumber'', ''account-number'', ''accountnumber'']"

definition AUTOCOMPLETE_DENYLIST :: "string list" where
  "AUTOCOMPLETE_DENYLIST = [''new-password'', ''current-password'', ''one-time-code'', ''cc-csc'']"

definition truthy :: "string option \<Rightarrow> bool" where
  \<comment> \<open>an optional string in a condition: \<open>undefined\<close> and \<open>''\<close> are false\<close>
  "truthy v = (case v of None \<Rightarrow> False | Some s \<Rightarrow> s \<noteq> [])"

definition orEmpty :: "string option \<Rightarrow> string" where
  \<comment> \<open>\<open>v || ''\<close>\<close>
  "orEmpty v = (case v of None \<Rightarrow> [] | Some s \<Rightarrow> s)"

definition isFieldDenylisted :: "FieldSignature \<Rightarrow> bool" where
  "isFieldDenylisted field =
     (if inputType field = IT_password then True
      else if truthy (autocomplete (attributes field))
              \<and> trim (toLowerCase (orEmpty (autocomplete (attributes field)))) \<in> set AUTOCOMPLETE_DENYLIST
      then True
      else if list_ex (\<lambda>denied. str_includes (toLowerCase (normalizedLabel field)) denied) FIELD_DENYLIST
      then True
      else list_ex (\<lambda>denied.
               str_includes (toLowerCase (orEmpty (attr_name (attributes field)))) denied
             \<or> str_includes (toLowerCase (orEmpty (attr_id (attributes field)))) denied) FIELD_DENYLIST)"

section \<open>Profile (shared/types/profile.ts)\<close>

datatype FieldCategory = Cat_personal | Cat_contact | Cat_professional | Cat_education | Cat_custom

record ContextField =
  cf_key :: string
  cf_value :: string
  category :: FieldCategory
  isEncrypted :: bool

datatype DocumentType = Doc_resume | Doc_cover_letter | Doc_other

record ContextDocument =
  doc_id :: string
  doc_name :: string
  content :: string
  doc_type :: DocumentType

text \<open>
  \<open>Profile\<close> with its \<open>staticContext\<close> flattened: \<open>pfields\<close> is the array
  \<open>staticContext.fields\<close>, \<open>documents\<close> the array \<open>staticContext.documents\<close>.  Learned
  examples, URL bindings and settings are read by none of the functions below.
\<close>

record Profile =
  profile_id :: string
  pfields :: "ContextField list"
  documents :: "ContextDocument list"

section \<open>Static matcher (shared/matching: mapFieldsToProfile, createSuggestedMappings)\<close>

fun SEMANTIC_TO_PROFILE_KEY :: "SemanticClass \<Rightarrow> string list" where
  "SEMANTIC_TO_PROFILE_KEY SC_first_name = [''firstName'', ''first_name'', ''givenName'']"
| "SEMANTIC_TO_PROFILE_KEY SC_last_name = [''lastName'', ''last_name'', ''familyName'', ''surname'']"
| "SEMANTIC_TO_PROFILE_KEY SC_full_name = [''fullName'', ''full_name'', ''name'']"
| "SEMANTIC_TO_PROFILE_KEY SC_date_of_birth = [''dateOfBirth'', ''dob'', ''birthDate'']"
| "SEMANTIC_TO_PROFILE_KEY SC_email = [''email'', ''emailAddress'', ''email_address'']"
| "SEMANTIC_TO_PROFILE_KEY SC_phone = [''phone'', ''phoneNumber'', ''phone_number'', ''mobile'', ''telephone'']"
| "SEMANTIC_TO_PROFILE_KEY SC_address_line1 =
     [''address'', ''addressLine1'', ''address_line1'', ''street'', ''streetAddress'']"
| "SEMANTIC_TO_PROFILE_KEY SC_address_line2 = [''addressLine2'', ''address_line2'', ''apt'', ''suite'', ''unit'']"
| "SEMANTIC_TO_PROFILE_KEY SC_city = [''city'', ''town'', ''locality'']"
| "SEMANTIC_TO_PROFILE_KEY SC_state = [''state'', ''province'', ''region'']"
| "SEMANTIC_TO_PROFILE_KEY SC_zip = [''zip'', ''zipCode'', ''zip_code'', ''postalCode'', ''postal_code'']"
| "SEMANTIC_TO_PROFILE_KEY SC_country = [''country'', ''countryName'']"
| "SEMANTIC_TO_PROFILE_KEY SC_company = [''company'', ''organization'', ''employer'', ''companyName'']"
| "SEMANTIC_TO_PROFILE_KEY SC_job_title = [''jobTitle'', ''job_title'', ''title'', ''position'', ''role'']"
| "SEMANTIC_TO_PROFILE_KEY SC_website = [''website'', ''url'', ''homepage'', ''personalWebsite'']"
| "SEMANTIC_TO_PROFILE_KEY SC_username = [''username'', ''user'', ''login'']"
| "SEMANTIC_TO_PROFILE_KEY SC_password = []"
| "SEMANTIC_TO_PROFILE_KEY SC_message = [''message'', ''comment'', ''note'', ''description'']"
| "SEMANTIC_TO_PROFILE_KEY SC_unknown = []"

definition findField :: "ContextField list \<Rightarrow> string \<Rightarrow> ContextField option" where
  \<comment> \<open>\<open>profileFields.find(f => f.key === key)\<close>\<close>
  "findField profileFields k = find (\<lambda>f. cf_key f = k) profileFields"

definition mkStatic :: "FieldSignature \<Rightarrow> string \<Rightarrow> real \<Rightarrow> FieldMapping" where
  "mkStatic field v c =
     \<lparr>fieldSignature = field, mvalue = v, confidence = c, msource = Src_static\<rparr>"

fun firstKeyWithValue :: "ContextField list \<Rightarrow> string list \<Rightarrow> string option" where
  \<comment> \<open>the loop over candidate keys: the first key whose profile field has a non-empty value\<close>
  "firstKeyWithValue profileFields [] = None"
| "firstKeyWithValue profileFields (k # ks) =
     (case findField profileFields k of
        Some profileField \<Rightarrow>
          if cf_value profileField \<noteq> [] then Some (cf_value profileField)
          else firstKeyWithValue profileFields ks
      | None \<Rightarrow> firstKeyWithValue profileFields ks)"

definition fuzzyPatterns :: "(atom list list \<times> string list) list" where
  "fuzzyPatterns =
    [([lit ''first'' @ [WsStar] @ lit ''name'', lit ''fname'', lit ''given''],
        [''firstName'', ''first_name'', ''givenName'']),
     ([lit ''last'' @ [WsStar] @ lit ''name'', lit ''lname'', lit ''surname'', lit ''family''],
        [''lastName'', ''last_name'', ''familyName'']),
     ([lit ''full'' @ [WsStar] @ lit ''name'', lit ''your'' @ [WsStar] @ lit ''name''],
        [''fullName'', ''full_name'', ''name'']),
     ([[Ch CHR ''e'', OptCh CHR ''-''] @ lit ''mail''],
        [''email'', ''emailAddress'', ''email_address'']),
     ([lit ''phone'', lit ''mobile'', lit ''cell'', lit ''tel''],
        [''phone'', ''phoneNumber'', ''phone_number'']),
     ([lit ''company'', lit ''organization'', lit ''employer''], [''company'', ''companyName'']),
     ([lit ''title'', lit ''position'', lit ''role''], [''jobTitle'', ''job_title'']),
     ([lit ''city'', lit ''town''], [''city'']),
     ([lit ''state'', lit ''province''], [''state'']),
     ([lit ''zip'', lit ''postal''], [''zip'', ''zipCode'', ''postalCode'']),
     ([lit ''address'', lit ''street''], [''address'', ''addressLine1'', ''address_line1''])]"

fun tryPatterns :: "string \<Rightarrow> ContextField list \<Rightarrow> (atom list list \<times> string list) list \<Rightarrow> string option" where
  "tryPatterns label profileFields [] = None"
| "tryPatterns label profileFields ((pattern, keys) # rest) =
     (if regex_test pattern label
      then (case firstKeyWithValue profileFields keys of
              Some v \<Rightarrow> Some v
            | None \<Rightarrow> tryPatterns label profileFields rest)
      else tryPatterns label profileFields rest)"

definition tryFuzzyMatch :: "FieldSignature \<Rightarrow> ContextField list \<Rightarrow> FieldMapping option" where
  "tryFuzzyMatch field profileFields =
     (let label = toLowerCase (normalizeText (normalizedLabel field))
      in case find (\<lambda>profileField. toLowerCase (normalizeText (cf_key profileField)) = label)
                   profileFields of
           Some profileField \<Rightarrow> Some (mkStatic field (cf_value profileField) 0.95)
         | None \<Rightarrow>
            (case tryPatterns label profileFields fuzzyPatterns of
               Some v \<Rightarrow> Some (mkStatic field v 0.8)
             | None \<Rightarrow>
                (case find (\<lambda>profileField.
                              let normalizedKey = toLowerCase (normalizeText (cf_key profileField))
                              in str_includes normalizedKey label
                                 \<or> str_includes label normalizedKey)
                           profileFields of
                   Some profileField \<Rightarrow> Some (mkStatic field (cf_value profileField) 0.7)
                 | None \<Rightarrow> None)))"

definition mapField :: "FieldSignature \<Rightarrow> ContextField list \<Rightarrow> FieldMapping option" where
  \<comment> \<open>the body of the loop of \<open>mapFieldsToProfile\<close> for one field\<close>
  "mapField field profileFields =
     (if semanticClass field = SC_password then None
      else
        (case (if semanticClass field \<noteq> SC_unknown
               then firstKeyWithValue profileFields (SEMANTIC_TO_PROFILE_KEY (semanticClass field))
               else None) of
           Some v \<Rightarrow> Some (mkStatic field v 1.0)
         | None \<Rightarrow> tryFuzzyMatch field profileFields))"

fun mapFieldsLoop :: "FieldSignature list \<Rightarrow> ContextField list \<Rightarrow> FieldMapping list" where
  "mapFieldsLoop [] profileFields = []"
| "mapFieldsLoop (field # rest) profileFields =
     (case mapField field profileFields of
        None \<Rightarrow> mapFieldsLoop rest profileFields
      | Some mapping \<Rightarrow> mapping # mapFieldsLoop rest profileFields)"

definition mapFieldsToProfile :: "FieldSignature list \<Rightarrow> Profile \<Rightarrow> FieldMapping list" where
  "mapFieldsToProfile flds profile = mapFieldsLoop flds (pfields profile)"

definition valueOr :: "ContextField option \<Rightarrow> ContextField option \<Rightarrow> string" where
  \<comment> \<open>\<open>a?.value || b?.value\<close>, with \<open>undefined\<close> and \<open>''\<close> both read as \<open>''\<close>:
      the result is only tested for truth and used when non-empty\<close>
  "valueOr a b =
     (if truthy (map_option cf_value a) then orEmpty (map_option cf_value a)
      else orEmpty (map_option cf_value b))"

definition hasClass :: "FieldSignature list \<Rightarrow> SemanticClass \<Rightarrow> bool" where
  "hasClass flds c = list_ex (\<lambda>f. semanticClass f = c) flds"

definition pushIfUnmapped :: "FieldMapping list \<Rightarrow> FieldSignature option \<Rightarrow> string \<Rightarrow> FieldMapping list" where
  \<comment> \<open>\<open>if (field && !mappings.some(m => m.fieldSignature.id === field.id)) mappings.push(...)\<close>\<close>
  "pushIfUnmapped mappings target v =
     (case target of
        None \<Rightarrow> mappings
      | Some field \<Rightarrow>
          if list_ex (\<lambda>m. fieldId m = fs_id field) mappings then mappings
          else mappings @ [mkStatic field v 0.9])"

definition splitFullName :: "FieldSignature list \<Rightarrow> ContextField list \<Rightarrow> FieldMapping list \<Rightarrow> FieldMapping list" where
  \<comment> \<open>first post-pass: the profile has a full name, the form wants first and last name\<close>
  "splitFullName flds profileFields mappings =
     (if \<not> hasClass flds SC_full_name \<and> hasClass flds SC_first_name \<and> hasClass flds SC_last_name
      then
        (let fullName = valueOr (findField profileFields ''fullName'') (findField profileFields ''full_name'')
         in if fullName \<noteq> [] \<and> findField profileFields ''firstName'' = None
                \<and> findField profileFields ''lastName'' = None
            then
              (let parts = splitWs (trim fullName)
               in if length parts \<ge> 2
                  then
                    (let firstName = hd parts;
                         lastName = join '' '' (tl parts);
                         mappings1 = pushIfUnmapped mappings
                                       (find (\<lambda>f. semanticClass f = SC_first_name) flds) firstName
                     in pushIfUnmapped mappings1
                          (find (\<lambda>f. semanticClass f = SC_last_name) flds) lastName)
                  else mappings)
            else mappings)
      else mappings)"

definition joinFullName :: "FieldSignature list \<Rightarrow> ContextField list \<Rightarrow> FieldMapping list \<Rightarrow> FieldMapping list" where
  \<comment> \<open>second post-pass: the profile has first and last name, the form wants a full name\<close>
  "joinFullName flds profileFields mappings =
     (if hasClass flds SC_full_name \<and> \<not> hasClass flds SC_first_name \<and> \<not> hasClass flds SC_last_name
      then
        (let firstName = valueOr (findField profileFields ''firstName'') (findField profileFields ''first_name'');
             lastName = valueOr (findField profileFields ''lastName'') (findField profileFields ''last_name'')
         in if firstName \<noteq> [] \<and> lastName \<noteq> [] \<and> findField profileFields ''fullName'' = None
            then pushIfUnmapped mappings (find (\<lambda>f. semanticClass f = SC_full_name) flds)
                   (firstName @ '' '' @ lastName)
            else mappings)
      else mappings)"

definition createSuggestedMappings :: "FieldSignature list \<Rightarrow> Profile \<Rightarrow> FieldMapping list" where
  "createSuggestedMappings flds profile =
     joinFullName flds (pfields profile)
       (splitFullName flds (pfields profile) (mapFieldsToProfile flds profile))"

text \<open>Values used in the closed examples below.\<close>

definition noAttributes :: Attributes where
  "noAttributes = \<lparr>attr_name = None, attr_id = None, placeholder = None,
                    autocomplete = None, ariaLabel = None\<rparr>"

definition mkField :: "string \<Rightarrow> InputType \<Rightarrow> string \<Rightarrow> SemanticClass \<Rightarrow> Attributes \<Rightarrow> FieldSignature" where
  "mkField i t l c a =
     \<lparr>fs_id = i, domPath = ''#'' @ i, inputType = t, normalizedLabel = l,
      semanticClass = c, attributes = a\<rparr>"

definition mkContextField :: "string \<Rightarrow> string \<Rightarrow> ContextField" where
  "mkContextField k v = \<lparr>cf_key = k, cf_value = v, category = Cat_custom, isEncrypted = False\<rparr>"

definition mkProfile :: "ContextField list \<Rightarrow> Profile" where
  "mkProfile fs = \<lparr>profile_id = ''p1'', pfields = fs, documents = []\<rparr>"


definition ex_name_field :: FieldSignature where
  "ex_name_field = mkField ''f1'' IT_text ''full name'' SC_full_name noAttributes"



definition ex_otp_field :: FieldSignature where
  \<comment> \<open>a one-time-code input next to a phone label\<close>
  "ex_otp_field = mkField ''f1'' IT_text ''phone code'' SC_phone
                    (noAttributes\<lparr>autocomplete := Some ''one-time-code''\<rparr>)"

definition ex_token_field :: FieldSignature where
  "ex_token_field = mkField ''f2'' IT_text ''token'' SC_unknown noAttributes"

definition ex_pwtype_field :: FieldSignature where
  \<comment> \<open>an input of kind password whose label only the pattern table recognises\<close>
  "ex_pwtype_field = mkField ''f3'' IT_password ''cellphone'' SC_unknown noAttributes"

definition ex_pin_field :: FieldSignature where
  "ex_pin_field = mkField ''f4'' IT_text ''pin'' SC_unknown noAttributes"

definition ex_password_field :: FieldSignature where
  "ex_password_field = mkField ''f5'' IT_password ''password'' SC_password noAttributes"

definition ex_contact_profile :: Profile where
  "ex_contact_profile = mkProfile
     [mkContextField ''phone'' ''555 0100'', mkContextField ''token'' ''abc123'',
      mkContextField ''shipping'' ''12 Mill Road'', mkContextField ''password'' ''hunter2'']"

definition ex_names_profile :: Profile where
  "ex_names_profile = mkProfile
     [mkContextField ''firstName'' ''Ada'', mkContextField ''lastName'' ''Lovelace'']"

section \<open>Vector store (shared/storage/VectorStore.ts)\<close>

text \<open>
  \<open>VectorEntry\<close> of shared/types/storage.ts.  A \<open>SearchResult\<close> is the entry spread into a
  new object together with its similarity; it is kept here as the entry and the number.
\<close>

datatype SourceType = ST_learned_example | ST_document | ST_knowledge_base

record VectorEntry =
  ve_id :: string
  profileId :: string
  embedding :: "real list"
  sourceType :: SourceType
  sourceId :: string
  ve_text :: string
  createdAt :: int

record SearchResult =
  entry :: VectorEntry
  similarity :: real

text \<open>
  A JavaScript number is read as a real number; comparison, the literal \<open>0\<close> and the
  values \<open>0\<close> and \<open>1\<close> are then exact.  The arithmetic of doubles rounds, so addition,
  multiplication, division and \<open>Math.sqrt\<close> are parameters: \<open>fadd\<close>, \<open>fmul\<close>, \<open>fdiv\<close> and
  \<open>fsqrt\<close> stand for the rounded operations.  NaN and the infinities lie outside the model.
\<close>

record FloatOps =
  fadd :: "real \<Rightarrow> real \<Rightarrow> real"
  fmul :: "real \<Rightarrow> real \<Rightarrow> real"
  fdiv :: "real \<Rightarrow> real \<Rightarrow> real"
  fsqrt :: "real \<Rightarrow> real"

text \<open>
  \<open>cosineSimilarity\<close>: the loop runs over indices below \<open>a.length\<close> and is entered only
  when both arrays have that length.
\<close>

fun cosineLoop :: "FloatOps \<Rightarrow> real list \<Rightarrow> real list \<Rightarrow> real \<times> real \<times> real
    \<Rightarrow> real \<times> real \<times> real" where
  "cosineLoop ops (x # a) (y # b) (dotProduct, normA, normB) =
     cosineLoop ops a b
       (fadd ops dotProduct (fmul ops x y),
        fadd ops normA (fmul ops x x),
        fadd ops normB (fmul ops y y))"
| "cosineLoop ops a b acc = acc"

definition cosineSimilarity :: "FloatOps \<Rightarrow> real list \<Rightarrow> real list \<Rightarrow> real" where
  "cosineSimilarity ops a b =
     (if length a \<noteq> length b then 0
      else
        (case cosineLoop ops a b (0, 0, 0) of
           (dotProduct, normA, normB) \<Rightarrow>
             (let magnitude = fmul ops (fsqrt ops normA) (fsqrt ops normB)
              in if magnitude = 0 then 0 else fdiv ops dotProduct magnitude)))"

text \<open>
  The sum of the products of two arrays, added up from the left starting at \<open>0\<close>: what each
  of the three accumulators of the loop holds at its end.
\<close>

definition sumProducts :: "FloatOps \<Rightarrow> real list \<Rightarrow> real list \<Rightarrow> real" where
  "sumProducts ops a b = foldl (\<lambda>acc (x, y). fadd ops acc (fmul ops x y)) 0 (zip a b)"

text \<open>\<open>xs.slice(0, e)\<close>: a negative end counts from the end of the array.\<close>

definition slice0 :: "'a list \<Rightarrow> int \<Rightarrow> 'a list" where
  "slice0 xs e = (if e < 0 then take (nat (int (length xs) + e)) xs else take (nat e) xs)"

text \<open>
  \<open>search\<close> on the array that \<open>getVectors(profileId)\<close> returned.  \<open>Array.prototype.sort\<close> is
  stable, and so is \<open>sort_key\<close>; sorting by the negated similarity is the comparator
  \<open>b.similarity - a.similarity\<close>.
\<close>

definition scoreEntry :: "FloatOps \<Rightarrow> real list \<Rightarrow> VectorEntry \<Rightarrow> SearchResult" where
  "scoreEntry ops queryEmbedding v =
     \<lparr>entry = v, similarity = cosineSimilarity ops queryEmbedding (embedding v)\<rparr>"

definition searchVectors :: "FloatOps \<Rightarrow> VectorEntry list \<Rightarrow> real list \<Rightarrow> int \<Rightarrow> real
    \<Rightarrow> SearchResult list" where
  "searchVectors ops vectors queryEmbedding topK threshold =
     (if length vectors = 0 then []
      else
        (let results = map (scoreEntry ops queryEmbedding) vectors
         in slice0 (sort_key (\<lambda>r. - similarity r)
                      (filter (\<lambda>r. similarity r \<ge> threshold) results)) topK))"

text \<open>The scored entries that pass the threshold, in collection order.\<close>

definition qualifying :: "FloatOps \<Rightarrow> VectorEntry list \<Rightarrow> real list \<Rightarrow> real \<Rightarrow> SearchResult list" where
  "qualifying ops vectors q threshold =
     filter (\<lambda>r. similarity r \<ge> threshold) (map (scoreEntry ops q) vectors)"

text \<open>
  The operations without rounding.  They are used only in the closed examples, on vectors
  of zeros and ones, where every sum, product, quotient and root is again 0 or 1 and the
  arithmetic of doubles gives the same result.
\<close>

definition exactOps :: FloatOps where
  "exactOps = \<lparr>fadd = (+), fmul = (*), fdiv = (/), fsqrt = sqrt\<rparr>"

definition mkVector :: "string \<Rightarrow> real list \<Rightarrow> VectorEntry" where
  "mkVector i e = \<lparr>ve_id = i, profileId = ''p1'', embedding = e, sourceType = ST_document,
                   sourceId = ''d1'', ve_text = ''text of '' @ i, createdAt = 0\<rparr>"

definition ex_vectors :: "VectorEntry list" where
  "ex_vectors = [mkVector ''v1'' [0, 1], mkVector ''v2'' [1, 0], mkVector ''v3'' [1, 0, 0], mkVector ''v4'' [1, 0]]"

section \<open>Retrieval assembler (background/ai/RAGEngine.ts: buildContext)\<close>

record RetrievalSource =
  rs_id :: string
  rs_type :: SourceType
  rs_similarity :: real
  rs_text :: string

record RetrievalResult =
  rcontext :: "string list"
  sources :: "RetrievalSource list"
  tokenEstimate :: int

definition CHARS_PER_TOKEN :: int where
  "CHARS_PER_TOKEN = 4"

definition estimateTokens :: "string \<Rightarrow> int" where
  \<comment> \<open>\<open>Math.ceil(text.length / CHARS_PER_TOKEN)\<close>\<close>
  "estimateTokens text = (int (length text) + CHARS_PER_TOKEN - 1) div CHARS_PER_TOKEN"

definition mkSource :: "SearchResult \<Rightarrow> string \<Rightarrow> RetrievalSource" where
  "mkSource result text =
     \<lparr>rs_id = ve_id (entry result), rs_type = sourceType (entry result),
      rs_similarity = similarity result, rs_text = text\<rparr>"

text \<open>
  The loop of \<open>buildContext\<close>; the accumulator holds \<open>context\<close>, \<open>sources\<close> and
  \<open>totalTokens\<close>.  The branch that does not recurse is the \<open>break\<close>.
\<close>

fun buildContextLoop :: "SearchResult list \<Rightarrow> int \<Rightarrow> RetrievalResult \<Rightarrow> RetrievalResult" where
  "buildContextLoop [] maxTokens acc = acc"
| "buildContextLoop (result # rest) maxTokens acc =
     (let tokens = estimateTokens (ve_text (entry result));
          totalTokens = tokenEstimate acc
      in if totalTokens + tokens > maxTokens
         then
           (let remainingTokens = maxTokens - totalTokens
            in if remainingTokens > 50
               then
                 (let truncatedText = take (nat (remainingTokens * CHARS_PER_TOKEN))
                                        (ve_text (entry result))
                  in acc\<lparr>rcontext := rcontext acc @ [truncatedText @ ''...''],
                         sources := sources acc @ [mkSource result truncatedText]\<rparr>)
               else acc)
         else buildContextLoop rest maxTokens
                (acc\<lparr>rcontext := rcontext acc @ [ve_text (entry result)],
                     sources := sources acc @ [mkSource result (ve_text (entry result))],
                     tokenEstimate := totalTokens + tokens\<rparr>))"

definition buildContext :: "SearchResult list \<Rightarrow> int \<Rightarrow> RetrievalResult" where
  "buildContext results maxTokens =
     buildContextLoop results maxTokens \<lparr>rcontext = [], sources = [], tokenEstimate = 0\<rparr>"

text \<open>The token estimate of a list of results: the sum of the estimates of their texts.\<close>

definition tokensOf :: "SearchResult list \<Rightarrow> int" where
  "tokensOf rs = sum_list (map (\<lambda>r. estimateTokens (ve_text (entry r))) rs)"

definition mkResult :: "string \<Rightarrow> string \<Rightarrow> SearchResult" where
  "mkResult i t = \<lparr>entry = (mkVector i [1, 0])\<lparr>ve_text := t\<rparr>, similarity = 1\<rparr>"

definition ex_long_results :: "SearchResult list" where
  \<comment> \<open>1450 tokens, then 51 tokens\<close>
  "ex_long_results =
     [mkResult ''v1'' (replicate 5800 CHR ''a''), mkResult ''v2'' (replicate 204 CHR ''b'')]"

definition ex_fitting_result :: SearchResult where
  \<comment> \<open>1449 tokens\<close>
  "ex_fitting_result = mkResult ''v1'' (replicate 5796 CHR ''a'')"

definition ex_overflowing_result :: SearchResult where
  \<comment> \<open>52 tokens\<close>
  "ex_overflowing_result = mkResult ''v2'' (replicate 208 CHR ''b'')"

section \<open>Number rendering (Number.prototype.toString)\<close>

definition digitChar :: "int \<Rightarrow> char" where
  \<comment> \<open>the digit of value \<open>d\<close> in \<open>Number.prototype.toString(radix)\<close>: 0-9 then a-z\<close>
  "digitChar d = ''0123456789abcdefghijklmnopqrstuvwxyz'' ! nat d"

function digitsOf :: "int \<Rightarrow> int \<Rightarrow> string" where
  "digitsOf radix n =
     (if radix < 2 \<or> n < radix then [digitChar n]
      else digitsOf radix (n div radix) @ [digitChar (n mod radix)])"
  by pat_completeness auto
termination
  by (relation "measure (\<lambda>(radix, n). nat n)") (auto intro: int_div_less_self)

declare digitsOf.simps [simp del]

definition toStringRadix :: "int \<Rightarrow> int \<Rightarrow> string" where
  \<comment> \<open>\<open>i.toString(radix)\<close> for an integer \<open>i\<close> and a radix from 2 to 36\<close>
  "toStringRadix radix i =
     (if i < 0 then ''-'' @ digitsOf radix (- i) else digitsOf radix i)"

section \<open>Prompt builder (background/ai/PromptBuilder.ts: buildProfileContext)\<close>

fun docTypeName :: "DocumentType \<Rightarrow> string" where
  "docTypeName Doc_resume = ''resume''"
| "docTypeName Doc_cover_letter = ''cover_letter''"
| "docTypeName Doc_other = ''other''"

text \<open>
  \<open>Object.entries(fields)\<close> on the array \<open>fields\<close>: the pairs of each index, rendered in
  decimal, and the element at that index.
\<close>

definition objectEntries :: "'a list \<Rightarrow> (string \<times> 'a) list" where
  "objectEntries xs = zip (map (\<lambda>i. toStringRadix 10 (int i)) [0 ..< length xs]) xs"

definition fieldEntries :: "ContextField list \<Rightarrow> string list" where
  \<comment> \<open>first loop of \<open>buildProfileContext\<close>\<close>
  "fieldEntries flds =
     map (\<lambda>(k, field). k @ '': '' @ cf_value field)
       (filter (\<lambda>(k, field). cf_value field \<noteq> [] \<and> \<not> isEncrypted field) (objectEntries flds))"

definition documentEntries :: "ContextDocument list \<Rightarrow> string list" where
  \<comment> \<open>second loop of \<open>buildProfileContext\<close>\<close>
  "documentEntries docs =
     map (\<lambda>doc. ''['' @ docTypeName (doc_type doc) @ ''] '' @ doc_name doc @ '': ''
                 @ take 500 (content doc) @ (if length (content doc) > 500 then ''...'' else []))
       (filter (\<lambda>doc. content doc \<noteq> []) docs)"

definition buildProfileContext :: "Profile \<Rightarrow> string" where
  "buildProfileContext profile =
     join [CHR 0x0A] (fieldEntries (pfields profile) @ documentEntries (documents profile))"

section \<open>Embedding service (background/ai/EmbeddingService.ts)\<close>

definition toInt32 :: "int \<Rightarrow> int" where
  \<comment> \<open>the 32-bit two's complement value of an integer, as the bitwise operators produce\<close>
  "toInt32 i = (i + 2147483648) mod 4294967296 - 2147483648"

fun hashLoop :: "string \<Rightarrow> int \<Rightarrow> int" where
  \<comment> \<open>\<open>hash = ((hash << 5) - hash) + char; hash = hash & hash\<close> for each code unit\<close>
  "hashLoop [] hash = hash"
| "hashLoop (c # cs) hash =
     hashLoop cs (toInt32 ((toInt32 (hash * 32) - hash) + of_char c))"

definition hashText :: "string \<Rightarrow> string" where
  "hashText text = toStringRadix 36 (hashLoop text 0)"

datatype OpenRouterErrorCode =
    INVALID_API_KEY | RATE_LIMITED | MODEL_NOT_FOUND | CONTEXT_LENGTH_EXCEEDED
  | CONTENT_FILTERED | SERVER_ERROR | NETWORK_ERROR | UNKNOWN

text \<open>
  What a \<open>throw\<close> carries: an \<open>OpenRouterError\<close> (message and code), any other \<open>Error\<close>
  (message), or a value that is not an \<open>Error\<close>.
\<close>

datatype thrown =
    OpenRouterError string OpenRouterErrorCode
  | JsError string
  | NonError

record EmbeddingResponse =
  edata :: "real list list"
  embTotalTokens :: int

text \<open>
  The module-level \<open>embeddingCache\<close>, a \<open>Map\<close> from the hash of a text to its vector.
  The remote \<open>createEmbedding\<close> is a parameter: its answer to the \<open>n\<close>-th request of one
  \<open>embedBatch\<close> call on a batch of texts is an error thrown or a response.
\<close>

type_synonym embedCache = "(string \<times> real list) list"

type_synonym remoteEmbedding = "nat \<Rightarrow> string list \<Rightarrow> thrown + EmbeddingResponse"

definition MAX_BATCH_SIZE :: nat where
  "MAX_BATCH_SIZE = 20"

definition MAX_CACHE_SIZE :: nat where
  "MAX_CACHE_SIZE = 500"

definition cacheEmbedding :: "string \<Rightarrow> real list \<Rightarrow> embedCache \<Rightarrow> embedCache" where
  "cacheEmbedding text emb cache =
     map_set (hashText text) emb
       (if length cache \<ge> MAX_CACHE_SIZE then tl cache else cache)"

text \<open>
  The first loop of \<open>embedBatch\<close>: cached results, the texts still to embed and their
  indices, in input order.
\<close>

fun checkCache :: "bool \<Rightarrow> embedCache \<Rightarrow> string list \<Rightarrow> nat
    \<Rightarrow> (string \<times> real list) list \<times> string list \<times> nat list" where
  "checkCache useCache cache [] i = ([], [], [])"
| "checkCache useCache cache (text # rest) i =
     (case checkCache useCache cache rest (Suc i) of
        (results, textsToEmbed, textIndexMap) \<Rightarrow>
          (case (if useCache then map_of cache (hashText text) else None) of
             Some cached \<Rightarrow> ((text, cached) # results, textsToEmbed, textIndexMap)
           | None \<Rightarrow> (results, text # textsToEmbed, i # textIndexMap)))"

text \<open>
  The loop over \<open>response.data\<close>.  \<open>batch[j]\<close> beyond the end of the batch is
  \<open>undefined\<close> (\<open>None\<close>); caching it throws a \<open>TypeError\<close> in \<open>hashText\<close>.  The cache is
  returned as the loop left it.
\<close>

fun storeBatch :: "bool \<Rightarrow> string list \<Rightarrow> real list list \<Rightarrow> embedCache
    \<Rightarrow> (thrown + (string option \<times> real list) list) \<times> embedCache" where
  "storeBatch useCache batch [] cache = (Inr [], cache)"
| "storeBatch useCache batch (emb # rest) cache =
     (let text = (case batch of [] \<Rightarrow> None | t # _ \<Rightarrow> Some t)
      in if useCache
         then
           (case text of
              None \<Rightarrow>
                (Inl (JsError ''Cannot read properties of undefined (reading 'length')''), cache)
            | Some t \<Rightarrow>
               (case storeBatch useCache (tl batch) rest (cacheEmbedding t emb cache) of
                  (Inl e, cache') \<Rightarrow> (Inl e, cache')
                | (Inr results, cache') \<Rightarrow> (Inr ((text, emb) # results), cache')))
         else
           (case storeBatch useCache (tl batch) rest cache of
              (Inl e, cache') \<Rightarrow> (Inl e, cache')
            | (Inr results, cache') \<Rightarrow> (Inr ((text, emb) # results), cache')))"

text \<open>
  The loop over batches of \<open>MAX_BATCH_SIZE\<close> texts; \<open>n\<close> counts the requests.  An error
  thrown by the request or inside the loop over its data leaves the function at once.
\<close>

function embedBatches :: "remoteEmbedding \<Rightarrow> bool \<Rightarrow> nat \<Rightarrow> string list \<Rightarrow> embedCache
    \<Rightarrow> (thrown + (string option \<times> real list) list \<times> int) \<times> embedCache" where
  "embedBatches remote useCache n textsToEmbed cache =
     (if textsToEmbed = [] then (Inr ([], 0), cache)
      else
        (let batch = take MAX_BATCH_SIZE textsToEmbed
         in case remote n batch of
              Inl e \<Rightarrow> (Inl e, cache)
            | Inr response \<Rightarrow>
               (case storeBatch useCache batch (edata response) cache of
                  (Inl e, cache') \<Rightarrow> (Inl e, cache')
                | (Inr stored, cache') \<Rightarrow>
                   (case embedBatches remote useCache (Suc n)
                           (drop MAX_BATCH_SIZE textsToEmbed) cache' of
                      (Inl e, cache'') \<Rightarrow> (Inl e, cache'')
                    | (Inr (later, tokens), cache'') \<Rightarrow>
                        (Inr (stored @ later, embTotalTokens response + tokens), cache'')))))"
  by pat_completeness auto
termination
  by (relation "measure (\<lambda>(remote, useCache, n, textsToEmbed, cache). length textsToEmbed)")
     (auto simp: MAX_BATCH_SIZE_def)

declare embedBatches.simps [simp del]

definition nth_opt :: "'a list \<Rightarrow> nat \<Rightarrow> 'a option" where
  \<comment> \<open>\<open>xs[i]\<close>: \<open>undefined\<close> beyond the end\<close>
  "nth_opt xs i = (if i < length xs then Some (xs ! i) else None)"

text \<open>The last loop: cached and new results back in input order.\<close>

fun combineResults :: "nat list \<Rightarrow> (string option \<times> real list) list
    \<Rightarrow> (string \<times> real list) list \<Rightarrow> nat list \<Rightarrow> nat \<Rightarrow> nat
    \<Rightarrow> (string option \<times> real list) option list" where
  "combineResults textIndexMap batchResults results [] cachedIdx newIdx = []"
| "combineResults textIndexMap batchResults results (i # is) cachedIdx newIdx =
     (if i \<in> set textIndexMap
      then nth_opt batchResults newIdx
             # combineResults textIndexMap batchResults results is cachedIdx (Suc newIdx)
      else map_option (\<lambda>(t, e). (Some t, e)) (nth_opt results cachedIdx)
             # combineResults textIndexMap batchResults results is (Suc cachedIdx) newIdx)"

record BatchEmbeddingResult =
  embeddings :: "(string option \<times> real list) option list"
  batchTotalTokens :: int

definition embedBatch :: "remoteEmbedding \<Rightarrow> embedCache \<Rightarrow> string list \<Rightarrow> bool
    \<Rightarrow> (thrown + BatchEmbeddingResult) \<times> embedCache" where
  "embedBatch remote cache texts useCache =
     (if length texts = 0 then (Inr \<lparr>embeddings = [], batchTotalTokens = 0\<rparr>, cache)
      else
        (case checkCache useCache cache texts 0 of
           (results, textsToEmbed, textIndexMap) \<Rightarrow>
             if length textsToEmbed = 0
             then (Inr \<lparr>embeddings = map (\<lambda>(t, e). Some (Some t, e)) results,
                        batchTotalTokens = 0\<rparr>, cache)
             else
               (case embedBatches remote useCache 0 textsToEmbed cache of
                  (Inl e, cache') \<Rightarrow> (Inl e, cache')
                | (Inr (batchResults, totalTokens), cache') \<Rightarrow>
                    (Inr \<lparr>embeddings = combineResults textIndexMap batchResults results
                                          [0 ..< length texts] 0 0,
                          batchTotalTokens = totalTokens\<rparr>, cache'))))"

definition ex_profile_with_secret :: Profile where
  "ex_profile_with_secret = mkProfile
     [mkContextField ''firstName'' ''Ada'',
      (mkContextField ''ssn'' ''078-05-1120'')\<lparr>isEncrypted := True\<rparr>,
      mkContextField ''email'' ''ada@x.org'']"

definition ex_texts :: "string list" where
  \<comment> \<open>21 distinct texts: one full batch and one more\<close>
  "ex_texts = map (\<lambda>i. ''chunk '' @ toStringRadix 10 (int i)) [0 ..< 21]"

definition ex_remote :: remoteEmbedding where
  \<comment> \<open>the first request is answered, every later one is rate limited\<close>
  "ex_remote n batch =
     (if n = 0 then Inr \<lparr>edata = map (\<lambda>t. [1, 0]) batch, embTotalTokens = 40\<rparr>
      else Inl (OpenRouterError ''Rate limit exceeded'' RATE_LIMITED))"

definition ex_remote_down :: remoteEmbedding where
  "ex_remote_down n batch = Inl (OpenRouterError ''Service unavailable'' SERVER_ERROR)"

definition textsToEmbedOf :: "bool \<Rightarrow> embedCache \<Rightarrow> string list \<Rightarrow> string list" where
  \<comment> \<open>the texts \<open>embedBatch\<close> sends to the remote service: those without a cache entry\<close>
  "textsToEmbedOf useCache cache texts = fst (snd (checkCache useCache cache texts 0))"

definition batchNo :: "nat \<Rightarrow> string list \<Rightarrow> string list" where
  \<comment> \<open>the batch of the \<open>j\<close>-th request\<close>
  "batchNo j textsToEmbed = take MAX_BATCH_SIZE (drop (j * MAX_BATCH_SIZE) textsToEmbed)"

section \<open>Response cache (background/services/CacheService.ts, StorageService cache operations)\<close>

record CachedFillResponse =
  cmappings :: "FieldMapping list"
  tokensUsed :: int
  ccreatedAt :: int
  hitCount :: int

text \<open>\<open>CacheEntry\<close> of shared/types/storage.ts, with the value a cached fill response.\<close>

record CacheEntry =
  ce_key :: string
  ce_value :: CachedFillResponse
  ce_createdAt :: int
  expiresAt :: "int option"

text \<open>The object store \<open>llm_cache\<close>, keyed by \<open>key\<close>.\<close>

type_synonym cacheStore = "string \<rightharpoonup> CacheEntry"

definition getCache :: "string \<Rightarrow> int \<Rightarrow> cacheStore \<Rightarrow> CachedFillResponse option \<times> cacheStore" where
  \<comment> \<open>\<open>StorageService.getCache\<close> at time \<open>now\<close>: an expired entry is deleted and not returned\<close>
  "getCache k now store =
     (case store k of
        None \<Rightarrow> (None, store)
      | Some e \<Rightarrow>
          (case expiresAt e of
             None \<Rightarrow> (Some (ce_value e), store)
           | Some t \<Rightarrow>
               if t \<noteq> 0 \<and> t < now then (None, store(k := None))
               else (Some (ce_value e), store)))"

definition setCache :: "string \<Rightarrow> CachedFillResponse \<Rightarrow> int \<Rightarrow> int \<Rightarrow> cacheStore \<Rightarrow> cacheStore" where
  \<comment> \<open>\<open>StorageService.setCache(key, value, ttlMs)\<close> at time \<open>now\<close>\<close>
  "setCache k v ttlMs now store =
     store(k \<mapsto> \<lparr>ce_key = k, ce_value = v, ce_createdAt = now,
                   expiresAt = (if ttlMs \<noteq> 0 then Some (now + ttlMs) else None)\<rparr>)"

definition clearExpiredCache :: "int \<Rightarrow> cacheStore \<Rightarrow> cacheStore" where
  \<comment> \<open>\<open>StorageService.clearExpiredCache\<close>: deletes the entries whose \<open>expiresAt\<close> is at most
      \<open>now\<close>; the count it returns is only logged\<close>
  "clearExpiredCache now store =
     (\<lambda>k. case store k of
            None \<Rightarrow> None
          | Some e \<Rightarrow>
              (case expiresAt e of
                 None \<Rightarrow> Some e
               | Some t \<Rightarrow> if t \<le> now then None else Some e))"

definition DEFAULT_TTL_MS :: int where
  "DEFAULT_TTL_MS = 7 * 24 * 60 * 60 * 1000"

definition CACHE_PREFIX :: string where
  "CACHE_PREFIX = ''llm_fill_''"

fun semanticClassName :: "SemanticClass \<Rightarrow> string" where
  "semanticClassName SC_first_name = ''first_name''"
| "semanticClassName SC_last_name = ''last_name''"
| "semanticClassName SC_full_name = ''full_name''"
| "semanticClassName SC_email = ''email''"
| "semanticClassName SC_phone = ''phone''"
| "semanticClassName SC_address_line1 = ''address_line1''"
| "semanticClassName SC_address_line2 = ''address_line2''"
| "semanticClassName SC_city = ''city''"
| "semanticClassName SC_state = ''state''"
| "semanticClassName SC_zip = ''zip''"
| "semanticClassName SC_country = ''country''"
| "semanticClassName SC_company = ''company''"
| "semanticClassName SC_job_title = ''job_title''"
| "semanticClassName SC_website = ''website''"
| "semanticClassName SC_username = ''username''"
| "semanticClassName SC_password = ''password''"
| "semanticClassName SC_date_of_birth = ''date_of_birth''"
| "semanticClassName SC_message = ''message''"
| "semanticClassName SC_unknown = ''unknown''"

fun inputTypeName :: "InputType \<Rightarrow> string" where
  "inputTypeName IT_text = ''text''"
| "inputTypeName IT_email = ''email''"
| "inputTypeName IT_tel = ''tel''"
| "inputTypeName IT_url = ''url''"
| "inputTypeName IT_password = ''password''"
| "inputTypeName IT_number = ''number''"
| "inputTypeName IT_date = ''date''"
| "inputTypeName IT_datetime_local = ''datetime-local''"
| "inputTypeName IT_time = ''time''"
| "inputTypeName IT_select = ''select''"
| "inputTypeName IT_radio = ''radio''"
| "inputTypeName IT_checkbox = ''checkbox''"
| "inputTypeName IT_textarea = ''textarea''"
| "inputTypeName IT_hidden = ''hidden''"
| "inputTypeName IT_file = ''file''"
| "inputTypeName IT_unknown = ''unknown''"

text \<open>\<open>FormSignature\<close>; its id, URL, form index and detection time are not read below.\<close>

record FormSignature =
  form_id :: string
  domain :: string
  ffields :: "FieldSignature list"

definition hashFormSignature :: "FormSignature \<Rightarrow> string" where
  \<comment> \<open>the default \<open>sort()\<close> orders strings by code units, as the order on \<open>string\<close> does\<close>
  "hashFormSignature formSignature =
     (let fieldIds = join ''|'' (sort (map (\<lambda>f. semanticClassName (semanticClass f) @ '':''
                                              @ inputTypeName (inputType f))
                                    (ffields formSignature)));
          str = domain formSignature @ '':'' @ fieldIds
      in toStringRadix 36 (abs (hashLoop str 0)))"

definition buildCacheKey :: "FormSignature \<Rightarrow> string \<Rightarrow> string" where
  "buildCacheKey formSignature pid =
     CACHE_PREFIX @ pid @ ''_'' @ hashFormSignature formSignature"

text \<open>
  A \<open>CacheService\<close> instance (\<open>ttlMs\<close>, \<open>initialized\<close>) together with what it works on: the
  cache store, the clock (\<open>Date.now()\<close>, one reading per operation) and the module-level
  counters.
\<close>

record CacheWorld =
  ttlMs :: int
  initialized :: bool
  store :: cacheStore
  now :: int
  cacheHits :: nat
  cacheMisses :: nat

definition newCacheService :: "int \<Rightarrow> cacheStore \<Rightarrow> int \<Rightarrow> CacheWorld" where
  \<comment> \<open>\<open>new CacheService(ttlMs)\<close> over a store at a time\<close>
  "newCacheService ttl st t =
     \<lparr>ttlMs = ttl, initialized = False, store = st, now = t, cacheHits = 0, cacheMisses = 0\<rparr>"

text \<open>
  \<open>init\<close> and \<open>cleanExpired\<close> call each other: \<open>init\<close> awaits \<open>cleanExpired\<close> before it sets
  \<open>initialized\<close>, and \<open>cleanExpired\<close> begins with \<open>await this.init()\<close>.  A call that never
  returns is \<open>None\<close>.  \<open>storageService.init()\<close> is taken to succeed.  The body of
  \<open>cleanExpired\<close> is written out inside \<open>init\<close>; \<open>cleanExpired\<close> itself follows.
\<close>

partial_function (option) cacheInit :: "CacheWorld \<Rightarrow> CacheWorld option" where
  "cacheInit w =
     (if initialized w then Some w
      else Option.bind
             (Option.bind (cacheInit w)
                (\<lambda>w1. Some (w1\<lparr>store := clearExpiredCache (now w1) (store w1)\<rparr>)))
             (\<lambda>w2. Some (w2\<lparr>initialized := True\<rparr>)))"

definition cleanExpired :: "CacheWorld \<Rightarrow> CacheWorld option" where
  "cleanExpired w =
     Option.bind (cacheInit w)
       (\<lambda>w1. Some (w1\<lparr>store := clearExpiredCache (now w1) (store w1)\<rparr>))"

definition cacheGetBody :: "CacheWorld \<Rightarrow> FormSignature \<Rightarrow> string
    \<Rightarrow> CachedFillResponse option \<times> CacheWorld" where
  \<comment> \<open>\<open>CacheService.get\<close> after \<open>await this.init()\<close>\<close>
  "cacheGetBody w formSignature pid =
     (let k = buildCacheKey formSignature pid
      in case getCache k (now w) (store w) of
           (Some cached, st) \<Rightarrow>
             (let cached' = cached\<lparr>hitCount := hitCount cached + 1\<rparr>
              in (Some cached',
                  w\<lparr>cacheHits := cacheHits w + 1,
                    store := setCache k cached' (ttlMs w) (now w) st\<rparr>))
         | (None, st) \<Rightarrow> (None, w\<lparr>cacheMisses := cacheMisses w + 1, store := st\<rparr>))"

definition cacheGet :: "CacheWorld \<Rightarrow> FormSignature \<Rightarrow> string
    \<Rightarrow> (CachedFillResponse option \<times> CacheWorld) option" where
  \<comment> \<open>\<open>CacheService.get\<close>\<close>
  "cacheGet w formSignature pid =
     Option.bind (cacheInit w) (\<lambda>w1. Some (cacheGetBody w1 formSignature pid))"

definition ex_form :: FormSignature where
  "ex_form = \<lparr>form_id = ''form1'', domain = ''example.org'',
              ffields = [mkField ''q1'' IT_textarea ''motivation'' SC_unknown noAttributes]\<rparr>"

definition ex_cached :: CachedFillResponse where
  "ex_cached = \<lparr>cmappings = [\<lparr>fieldSignature = hd (ffields ex_form), mvalue = ''Because.'',
                               confidence = 0.9, msource = Src_llm\<rparr>],
                tokensUsed = 120, ccreatedAt = 1000, hitCount = 0\<rparr>"

definition ex_store :: cacheStore where
  \<comment> \<open>one entry, written at time 1000 with the default TTL\<close>
  "ex_store = setCache (buildCacheKey ex_form ''p1'') ex_cached DEFAULT_TTL_MS 1000 Map.empty"

section \<open>Prompt builder (background/ai/PromptBuilder.ts: buildPrompt)\<close>

record FieldSchemaEntry =
  fse_id :: string
  fse_label :: string
  fse_type :: string
  fse_semanticClass :: string
  fse_placeholder :: "string option"

record BuiltPrompt =
  systemPrompt :: string
  userPrompt :: string
  estimatedTokens :: int

definition LF :: string where
  "LF = [CHR 0x0A]"

definition SYSTEM_PROMPT :: string where
  "SYSTEM_PROMPT =
     ''You are a form-filling assistant. Your task is to analyze form fields and provide appropriate values from the user's profile data.'' @ LF @ LF
     @ ''RULES:'' @ LF
     @ ''1. Return ONLY a valid JSON object mapping field IDs to values'' @ LF
     @ ''2. Only include fields you can confidently fill'' @ LF
     @ ''3. Never fill password, OTP, CVV, or security-related fields'' @ LF
     @ ''4. Match data types appropriately (email format for email fields, etc.)'' @ LF
     @ ''5. If unsure about a field, omit it from the response'' @ LF
     @ ''6. Use exact field IDs from the input'' @ LF @ LF
     @ ''RESPONSE FORMAT:'' @ LF
     @ ''{'' @ LF
     @ ''  \"fieldId1\": \"value1\",'' @ LF
     @ ''  \"fieldId2\": \"value2\"'' @ LF
     @ ''}''"

definition DEFAULT_MAX_TOKENS :: int where
  "DEFAULT_MAX_TOKENS = 3000"

definition buildFormSchemaEntries :: "FormSignature \<Rightarrow> FieldSchemaEntry list" where
  \<comment> \<open>the loop of \<open>buildFormSchema\<close>: denylisted fields are skipped\<close>
  "buildFormSchemaEntries formSignature =
     map (\<lambda>field. \<lparr>fse_id = fs_id field, fse_label = normalizedLabel field,
                     fse_type = inputTypeName (inputType field),
                     fse_semanticClass = semanticClassName (semanticClass field),
                     fse_placeholder = placeholder (attributes field)\<rparr>)
       (filter (\<lambda>field. \<not> isFieldDenylisted field) (ffields formSignature))"

definition buildRAGSection :: "string list \<Rightarrow> string" where
  "buildRAGSection ragContext =
     (if length ragContext = 0 then []
      else LF @ ''Previous successful fills for similar forms:'' @ LF
           @ join LF (map (\<lambda>(i, ex). ''Example '' @ toStringRadix 10 (int (i + 1)) @ '': '' @ ex)
                        (enumerate 0 ragContext)))"

definition assembleUserPrompt :: "string \<Rightarrow> string \<Rightarrow> string \<Rightarrow> int \<Rightarrow> string" where
  "assembleUserPrompt profileContext formSchema ragSection maxTokens =
     (let prompt = ''PROFILE DATA:'' @ LF @ profileContext @ LF @ LF
                   @ ''FORM FIELDS TO FILL:'' @ LF @ formSchema;
          prompt1 = (if ragSection \<noteq> []
                        \<and> estimateTokens prompt + estimateTokens ragSection < maxTokens
                     then prompt @ ragSection else prompt)
      in prompt1 @ LF @ LF
         @ ''Based on the profile data above, provide values for the form fields. Return ONLY a JSON object mapping field IDs to values.'')"

text \<open>
  \<open>buildPrompt\<close>.  \<open>JSON.stringify(fields, null, 2)\<close> is the parameter \<open>stringify\<close>.
\<close>

definition buildPrompt :: "(FieldSchemaEntry list \<Rightarrow> string) \<Rightarrow> Profile \<Rightarrow> FormSignature
    \<Rightarrow> string list option \<Rightarrow> int option \<Rightarrow> BuiltPrompt" where
  "buildPrompt stringify profile formSignature ragContext maxTokensOpt =
     (let maxTokens = (case maxTokensOpt of None \<Rightarrow> DEFAULT_MAX_TOKENS | Some n \<Rightarrow> n);
          profileContext = buildProfileContext profile;
          formSchema = stringify (buildFormSchemaEntries formSignature);
          ragSection = (case ragContext of
                          None \<Rightarrow> []
                        | Some rc \<Rightarrow> if length rc \<noteq> 0 then buildRAGSection rc else []);
          userPrompt = assembleUserPrompt profileContext formSchema ragSection maxTokens
      in \<lparr>systemPrompt = SYSTEM_PROMPT, userPrompt = userPrompt,
          estimatedTokens = estimateTokens (SYSTEM_PROMPT @ userPrompt)\<rparr>)"

section \<open>Response validator (background/ai/ResponseValidator.ts: validate)\<close>

datatype ErrorType = INVALID_JSON | INVALID_FIELD_ID | INVALID_VALUE_TYPE | SECURITY_VIOLATION

datatype WarningType = LOW_CONFIDENCE | TYPE_MISMATCH | EMPTY_VALUE

text \<open>Errors and warnings carry their type and field id; the message texts are left out.\<close>

record ValidationError =
  etype :: ErrorType
  efieldId :: "string option"

record ValidationWarning =
  wtype :: WarningType
  wfieldId :: "string option"

record ValidationResult =
  valid :: bool
  vmappings :: "FieldMapping list"
  errors :: "ValidationError list"
  warnings :: "ValidationWarning list"

text \<open>
  What the orchestrator and the validator take from outside.  \<open>configLoads\<close>: whether
  \<open>chrome.storage.sync.get\<close> succeeds in \<open>openRouterClient.init\<close>; \<open>isConfigured\<close>: whether an
  API key is set; \<open>chatCompletion\<close>: the remote model's answer to a prompt, an error thrown
  or a response; \<open>parseJSON\<close>: the result of \<open>parseJSON\<close> (built on \<open>JSON.parse\<close>), an error
  message or the entries of the parsed object; \<open>stringify\<close>: \<open>JSON.stringify\<close>; the tests
  \<open>emailOk\<close> to \<open>zipOk\<close>: \<open>RegExp.test\<close> for the five value patterns; \<open>isNumber\<close>:
  \<open>!isNaN(Number(v))\<close>.
\<close>

record ChatCompletionResponse =
  choices :: "string option list"
  usageTotalTokens :: int

record Collaborators =
  configLoads :: bool
  isConfigured :: bool
  chatCompletion :: "BuiltPrompt \<Rightarrow> thrown + ChatCompletionResponse"
  parseJSON :: "string \<Rightarrow> string + (string \<times> string) list"
  stringify :: "FieldSchemaEntry list \<Rightarrow> string"
  emailOk :: "string \<Rightarrow> bool"
  phoneOk :: "string \<Rightarrow> bool"
  urlOk :: "string \<Rightarrow> bool"
  dateOk :: "string \<Rightarrow> bool"
  zipOk :: "string \<Rightarrow> bool"
  isNumber :: "string \<Rightarrow> bool"

definition typeMismatch :: "FieldSignature \<Rightarrow> ValidationWarning option" where
  "typeMismatch field = Some \<lparr>wtype = TYPE_MISMATCH, wfieldId = Some (fs_id field)\<rparr>"

definition validateValueType :: "Collaborators \<Rightarrow> string \<Rightarrow> FieldSignature
    \<Rightarrow> real \<times> ValidationWarning option" where
  "validateValueType coll v field =
     (let trimmedValue = trim v;
          (confidence, warning) =
            (case inputType field of
               IT_email \<Rightarrow> if \<not> emailOk coll trimmedValue then (0.5, typeMismatch field) else (0.9, None)
             | IT_tel \<Rightarrow> if \<not> phoneOk coll trimmedValue then (0.6, typeMismatch field) else (0.9, None)
             | IT_url \<Rightarrow> if \<not> urlOk coll trimmedValue then (0.5, typeMismatch field) else (0.9, None)
             | IT_date \<Rightarrow> if \<not> dateOk coll trimmedValue then (0.6, typeMismatch field) else (0.9, None)
             | IT_number \<Rightarrow> if \<not> isNumber coll trimmedValue then (0.4, typeMismatch field) else (0.9, None)
             | _ \<Rightarrow> (0.9, None));
          confidence1 = (if semanticClass field = SC_zip \<and> \<not> zipOk coll trimmedValue
                         then min confidence 0.6 else confidence);
          confidence2 = (if semanticClass field = SC_email \<and> \<not> emailOk coll trimmedValue
                         then min confidence1 0.5 else confidence1)
      in (confidence2, warning))"

definition fieldMapOf :: "FieldSignature list \<Rightarrow> (string \<rightharpoonup> FieldSignature)" where
  \<comment> \<open>step 2 of \<open>validate\<close>: a later field with the same id replaces an earlier one\<close>
  "fieldMapOf flds = foldl (\<lambda>m field. m(fs_id field \<mapsto> field)) Map.empty flds"

fun validateEntries :: "Collaborators \<Rightarrow> (string \<rightharpoonup> FieldSignature) \<Rightarrow> (string \<times> string) list
    \<Rightarrow> ValidationError list \<times> ValidationWarning list \<times> FieldMapping list
    \<Rightarrow> ValidationError list \<times> ValidationWarning list \<times> FieldMapping list" where
  "validateEntries coll fieldMap [] acc = acc"
| "validateEntries coll fieldMap ((fid, v) # rest) (errs, warns, maps) =
     (case fieldMap fid of
        None \<Rightarrow>
          validateEntries coll fieldMap rest
            (errs @ [\<lparr>etype = INVALID_FIELD_ID, efieldId = Some fid\<rparr>], warns, maps)
      | Some field \<Rightarrow>
          if isFieldDenylisted field
          then validateEntries coll fieldMap rest
                 (errs @ [\<lparr>etype = SECURITY_VIOLATION, efieldId = Some fid\<rparr>], warns, maps)
          else if trim v = []
          then validateEntries coll fieldMap rest
                 (errs, warns @ [\<lparr>wtype = EMPTY_VALUE, wfieldId = Some fid\<rparr>], maps)
          else
            (case validateValueType coll v field of
               (conf, warning) \<Rightarrow>
                 validateEntries coll fieldMap rest
                   (errs,
                    warns @ (case warning of None \<Rightarrow> [] | Some w \<Rightarrow> [w]),
                    maps @ [\<lparr>fieldSignature = field, mvalue = trim v,
                              confidence = conf, msource = Src_llm\<rparr>])))"

definition validate :: "Collaborators \<Rightarrow> string \<Rightarrow> FormSignature \<Rightarrow> ValidationResult" where
  "validate coll rawResponse formSignature =
     (case parseJSON coll rawResponse of
        Inl message \<Rightarrow>
          \<lparr>valid = False, vmappings = [],
           errors = [\<lparr>etype = INVALID_JSON, efieldId = None\<rparr>], warnings = []\<rparr>
      | Inr parsed \<Rightarrow>
          (case validateEntries coll (fieldMapOf (ffields formSignature)) parsed ([], [], []) of
             (errs, warns, maps) \<Rightarrow>
               (let hasBlockingErrors =
                      list_ex (\<lambda>e. etype e = INVALID_JSON \<or> etype e = SECURITY_VIOLATION) errs
                in \<lparr>valid = (\<not> hasBlockingErrors \<and> length maps > 0), vmappings = maps,
                    errors = errs, warnings = warns\<rparr>)))"

section \<open>Resolution orchestrator (background/ai/LLMOrchestrator.ts)\<close>

datatype FillSource = FS_llm | FS_static | FS_cached | FS_hybrid

record FillRequest =
  req_formSignature :: FormSignature
  req_profile :: Profile
  req_ragContext :: "string list option"
  req_useCache :: "bool option"

record FillResponse =
  fmappings :: "FieldMapping list"
  fsource :: FillSource
  llmUsed :: bool
  ftokensUsed :: "int option"
  fallbackReason :: "string option"

record OrchestratorConfig =
  fallbackToStatic :: bool
  maxRetries :: nat
  timeout :: int

definition DEFAULT_CONFIG :: OrchestratorConfig where
  "DEFAULT_CONFIG = \<lparr>fallbackToStatic = True, maxRetries = 2, timeout = 30000\<rparr>"

text \<open>
  The state a fill can touch: the orchestrator's \<open>initialized\<close> flag, the number of
  chat-completion requests sent so far, and the response cache's store.
\<close>

record OrchestratorState =
  orchInitialized :: bool
  llmCalls :: nat
  respCache :: cacheStore

definition staticFill :: "FormSignature \<Rightarrow> Profile \<Rightarrow> string \<Rightarrow> FillResponse" where
  "staticFill form prof reason =
     \<lparr>fmappings = createSuggestedMappings (ffields form) prof, fsource = FS_static,
      llmUsed = False, ftokensUsed = None, fallbackReason = Some reason\<rparr>"

definition hasCode :: "thrown \<Rightarrow> OpenRouterErrorCode \<Rightarrow> bool" where
  \<comment> \<open>\<open>error instanceof OpenRouterError && error.code === c\<close>\<close>
  "hasCode e c = (case e of OpenRouterError m c' \<Rightarrow> c' = c | _ \<Rightarrow> False)"

definition reasonOf :: "thrown \<Rightarrow> string" where
  \<comment> \<open>\<open>error instanceof Error ? error.message : 'Unknown error'\<close>\<close>
  "reasonOf e = (case e of OpenRouterError m c \<Rightarrow> m | JsError m \<Rightarrow> m | NonError \<Rightarrow> ''Unknown error'')"

definition fillCatch :: "OrchestratorConfig \<Rightarrow> FormSignature \<Rightarrow> Profile \<Rightarrow> thrown
    \<Rightarrow> thrown + FillResponse" where
  \<comment> \<open>the \<open>catch\<close> block of \<open>fill\<close>\<close>
  "fillCatch cfg form prof e =
     (if hasCode e INVALID_API_KEY then Inr (staticFill form prof ''Invalid API key'')
      else if hasCode e RATE_LIMITED then Inr (staticFill form prof ''Rate limited'')
      else if fallbackToStatic cfg then Inr (staticFill form prof (reasonOf e))
      else Inl e)"

definition fillTry :: "OrchestratorConfig \<Rightarrow> Collaborators \<Rightarrow> OrchestratorState \<Rightarrow> FillRequest
    \<Rightarrow> (thrown + FillResponse) \<times> OrchestratorState" where
  \<comment> \<open>the \<open>try\<close> block of \<open>fill\<close>; \<open>Inl\<close> is an error thrown inside it\<close>
  "fillTry cfg coll st request =
     (let form = req_formSignature request; prof = req_profile request;
          prompt = buildPrompt (stringify coll) prof form (req_ragContext request) None;
          st1 = st\<lparr>llmCalls := llmCalls st + 1\<rparr>
      in case chatCompletion coll prompt of
           Inl e \<Rightarrow> (Inl e, st1)
         | Inr response \<Rightarrow>
            (let rawContent = (case choices response of [] \<Rightarrow> None | c # _ \<Rightarrow> c)
             in if \<not> truthy rawContent then (Inl (JsError ''Empty response from LLM''), st1)
                else
                  (let validationResult = validate coll (orEmpty rawContent) form
                   in if \<not> valid validationResult
                      then (if fallbackToStatic cfg
                            then (Inr (staticFill form prof ''LLM response validation failed''), st1)
                            else (Inl (JsError ''LLM response validation failed''), st1))
                      else
                        (let staticMappings = createSuggestedMappings (ffields form) prof;
                             mergedMappings = mergeWithStaticMappings
                                                (vmappings validationResult) staticMappings
                         in (Inr \<lparr>fmappings = mergedMappings,
                                  fsource = (if length staticMappings > 0 then FS_hybrid else FS_llm),
                                  llmUsed = True,
                                  ftokensUsed = Some (usageTotalTokens response),
                                  fallbackReason = None\<rparr>, st1)))))"

definition fill :: "OrchestratorConfig \<Rightarrow> Collaborators \<Rightarrow> OrchestratorState \<Rightarrow> FillRequest
    \<Rightarrow> (thrown + FillResponse) \<times> OrchestratorState" where
  \<comment> \<open>\<open>LLMOrchestrator.fill\<close>; \<open>Inl\<close> is an error thrown to the caller\<close>
  "fill cfg coll st request =
     (if \<not> orchInitialized st \<and> \<not> configLoads coll
      then (Inl (OpenRouterError ''Failed to load configuration'' UNKNOWN), st)
      else
        (let st0 = st\<lparr>orchInitialized := True\<rparr>
         in if \<not> isConfigured coll
            then (Inr (staticFill (req_formSignature request) (req_profile request)
                         ''API key not configured''), st0)
            else
              (case fillTry cfg coll st0 request of
                 (Inl e, st1) \<Rightarrow>
                   (fillCatch cfg (req_formSignature request) (req_profile request) e, st1)
               | (Inr response, st1) \<Rightarrow> (Inr response, st1))))"

text \<open>
  The handler of \<open>TRIGGER_FILL\<close> in the background entry point, from the static mappings to
  the final mappings: the AI is used for the unmapped fields when there are any and the
  LLM is available; an error thrown by \<open>fill\<close> leaves the static mappings.
\<close>

datatype TriggerSource = TS_static | TS_combined

definition unmappedFieldsOf :: "FormSignature \<Rightarrow> FieldMapping list \<Rightarrow> FieldSignature list" where
  "unmappedFieldsOf form staticMappings =
     filter (\<lambda>f. fs_id f \<notin> set (map fieldId staticMappings) \<and> semanticClass f \<noteq> SC_password)
       (ffields form)"

definition triggerFill :: "OrchestratorConfig \<Rightarrow> Collaborators \<Rightarrow> OrchestratorState
    \<Rightarrow> FormSignature \<Rightarrow> Profile
    \<Rightarrow> (FieldMapping list \<times> TriggerSource) \<times> OrchestratorState" where
  "triggerFill cfg coll st form prof =
     (let staticMappings = createSuggestedMappings (ffields form) prof;
          unmappedFields = unmappedFieldsOf form staticMappings
      in if length unmappedFields > 0 \<and> isConfigured coll
         then
           (case fill cfg coll st
                   \<lparr>req_formSignature = form\<lparr>ffields := unmappedFields\<rparr>, req_profile = prof,
                    req_ragContext = None, req_useCache = Some True\<rparr> of
              (Inr fillResponse, st1) \<Rightarrow>
                ((staticMappings @ fmappings fillResponse, TS_combined), st1)
            | (Inl e, st1) \<Rightarrow> ((staticMappings, TS_static), st1))
         else ((staticMappings, TS_static), st))"

definition ex_collaborators :: Collaborators where
  \<comment> \<open>a configured client whose model answers every prompt with one value for field \<open>q1\<close>\<close>
  "ex_collaborators =
     \<lparr>configLoads = True, isConfigured = True,
      chatCompletion = (\<lambda>prompt. Inr \<lparr>choices = [Some ''{\"q1\": \"I like it\"}''],
                                       usageTotalTokens = 321\<rparr>),
      parseJSON = (\<lambda>raw. Inr [(''q1'', ''I like it'')]),
      stringify = (\<lambda>entries. ''[]''),
      emailOk = (\<lambda>v. True), phoneOk = (\<lambda>v. True), urlOk = (\<lambda>v. True),
      dateOk = (\<lambda>v. True), zipOk = (\<lambda>v. True), isNumber = (\<lambda>v. True)\<rparr>"

definition ex_failing_collaborators :: Collaborators where
  \<comment> \<open>the same client when the remote model is down\<close>
  "ex_failing_collaborators =
     ex_collaborators\<lparr>chatCompletion :=
        (\<lambda>prompt. Inl (OpenRouterError ''Server error'' SERVER_ERROR))\<rparr>"

definition ex_state :: OrchestratorState where
  \<comment> \<open>a fresh orchestrator over a response cache that holds an entry for \<open>ex_form\<close>\<close>
  "ex_state = \<lparr>orchInitialized = False, llmCalls = 0, respCache = ex_store\<rparr>"

definition ex_request :: FillRequest where
  "ex_request = \<lparr>req_formSignature = ex_form, req_profile = ex_names_profile,
                 req_ragContext = None, req_useCache = Some True\<rparr>"

definition firstContent :: "ChatCompletionResponse \<Rightarrow> string option" where
  \<comment> \<open>\<open>response.choices[0]?.message?.content\<close>\<close>
  "firstContent response = (case choices response of [] \<Rightarrow> None | c # _ \<Rightarrow> c)"

definition promptOf :: "Collaborators \<Rightarrow> FillRequest \<Rightarrow> BuiltPrompt" where
  \<comment> \<open>the prompt \<open>fill\<close> sends for a request\<close>
  "promptOf coll request =
     buildPrompt (stringify coll) (req_profile request) (req_formSignature request) (req_ragContext request) None"

section \<open>Further values of the closed examples\<close>




definition ex_name_request :: FillRequest where
  \<comment> \<open>a form with one full-name field, which the static matcher maps\<close>
  "ex_name_request =
     \<lparr>req_formSignature = \<lparr>form_id = ''form2'', domain = ''example.org'',
                            ffields = [ex_name_field]\<rparr>,
      req_profile = ex_names_profile, req_ragContext = None, req_useCache = None\<rparr>"

text \<open>
  The cache as the first \<open>j\<close> requests of the batch loop leave it, counting requests from
  \<open>n\<close>: each answered request stores its vectors, a failed one stores nothing.
\<close>

fun storedThrough :: "remoteEmbedding \<Rightarrow> bool \<Rightarrow> nat \<Rightarrow> nat \<Rightarrow> string list \<Rightarrow> embedCache
    \<Rightarrow> embedCache" where
  "storedThrough remote useCache n 0 textsToEmbed cache = cache"
| "storedThrough remote useCache n (Suc j) textsToEmbed cache =
     (case remote n (take MAX_BATCH_SIZE textsToEmbed) of
        Inl e \<Rightarrow> cache
      | Inr response \<Rightarrow>
          storedThrough remote useCache (Suc n) j (drop MAX_BATCH_SIZE textsToEmbed)
            (snd (storeBatch useCache (take MAX_BATCH_SIZE textsToEmbed) (edata response) cache)))"

section \<open>Properties of the insertion-ordered map\<close>



lemma map_of_map_set:
  "map_of (map_set k v m) = (map_of m)(k \<mapsto> v)"
  by (induction m) (auto simp: fun_eq_iff)

section \<open>Merging LLM and static mappings\<close>









lemma map_of_overrideLLM:
  "map_of (overrideLLM m x) i =
     (if fieldId x = i
      then (case map_of m i of
              None \<Rightarrow> Some x
            | Some e \<Rightarrow> if confidence x > confidence e then Some x else Some e)
      else map_of m i)"
  by (simp add: overrideLLM_def map_of_map_set split: option.splits)






lemma foldl_overrideLLM_other:
  "i \<notin> fieldId ` set xs \<Longrightarrow> map_of (foldl overrideLLM m xs) i = map_of m i"
  by (induction xs arbitrary: m) (auto simp: map_of_overrideLLM)







section \<open>Static matcher and credential fields\<close>

lemma mapField_sig:
  "mapField field pf = Some m \<Longrightarrow>
   fieldSignature m = field \<and> semanticClass field \<noteq> SC_password \<and> msource m = Src_static"
  by (auto simp: mapField_def tryFuzzyMatch_def mkStatic_def Let_def
           split: if_splits option.splits)

lemma mapFieldsLoop_sig:
  "m \<in> set (mapFieldsLoop flds pf) \<Longrightarrow>
   fieldSignature m \<in> set flds \<and> semanticClass (fieldSignature m) \<noteq> SC_password"
  by (induction flds) (auto split: option.splits dest: mapField_sig)

lemma find_class:
  "find (\<lambda>f. semanticClass f = c) flds = Some t \<Longrightarrow> semanticClass t = c \<and> t \<in> set flds"
  by (auto simp: find_Some_iff)

lemma pushIfUnmapped_sig:
  "m \<in> set (pushIfUnmapped ms (find (\<lambda>f. semanticClass f = c) flds) v) \<Longrightarrow>
   m \<in> set ms \<or> (semanticClass (fieldSignature m) = c \<and> fieldSignature m \<in> set flds)"
  by (auto simp: pushIfUnmapped_def mkStatic_def split: option.splits if_splits
           dest: find_class)

lemma splitFullName_sig:
  "m \<in> set (splitFullName flds pf ms) \<Longrightarrow>
   m \<in> set ms \<or> (semanticClass (fieldSignature m) \<in> {SC_first_name, SC_last_name}
                  \<and> fieldSignature m \<in> set flds)"
  unfolding splitFullName_def Let_def
  by (auto split: if_splits dest!: pushIfUnmapped_sig)

lemma joinFullName_sig:
  "m \<in> set (joinFullName flds pf ms) \<Longrightarrow>
   m \<in> set ms \<or> (semanticClass (fieldSignature m) = SC_full_name
                  \<and> fieldSignature m \<in> set flds)"
  unfolding joinFullName_def Let_def
  by (auto split: if_splits dest!: pushIfUnmapped_sig)

lemma suggested_sig:
  "m \<in> set (createSuggestedMappings flds profile) \<Longrightarrow>
   semanticClass (fieldSignature m) \<noteq> SC_password"
proof -
  assume "m \<in> set (createSuggestedMappings flds profile)"
  then consider "m \<in> set (mapFieldsToProfile flds profile)"
    | "semanticClass (fieldSignature m) \<in> {SC_first_name, SC_last_name, SC_full_name}"
    unfolding createSuggestedMappings_def
    by (auto dest!: joinFullName_sig splitFullName_sig)
  then show ?thesis
    by cases (auto simp: mapFieldsToProfile_def dest: mapFieldsLoop_sig)
qed

text \<open>
  Claim C1 as stated fails.  The static tiers never call \<open>isFieldDenylisted\<close>: their only
  guard is on the semantic class \<open>password\<close>.  Four fields that \<open>isFieldDenylisted\<close> rejects
  (by autocomplete token, by label substring, by input kind, by label substring) each
  receive a mapping, one from each tier: semantic class (confidence 1), exact key (0.95),
  pattern table (0.8) and partial key (0.7).
\<close>

theorem denylisted_fields_get_static_mappings:
  "isFieldDenylisted ex_otp_field
   \<and> createSuggestedMappings [ex_otp_field] ex_contact_profile =
       [\<lparr>fieldSignature = ex_otp_field, mvalue = ''555 0100'',
         confidence = 1, msource = Src_static\<rparr>]
   \<and> isFieldDenylisted ex_token_field
   \<and> createSuggestedMappings [ex_token_field] ex_contact_profile =
       [\<lparr>fieldSignature = ex_token_field, mvalue = ''abc123'',
         confidence = 0.95, msource = Src_static\<rparr>]
   \<and> isFieldDenylisted ex_pwtype_field
   \<and> createSuggestedMappings [ex_pwtype_field] ex_contact_profile =
       [\<lparr>fieldSignature = ex_pwtype_field, mvalue = ''555 0100'',
         confidence = 0.8, msource = Src_static\<rparr>]
   \<and> isFieldDenylisted ex_pin_field
   \<and> createSuggestedMappings [ex_pin_field] ex_contact_profile =
       [\<lparr>fieldSignature = ex_pin_field, mvalue = ''12 Mill Road'',
         confidence = 0.7, msource = Src_static\<rparr>]"
  by code_simp

text \<open>
  Claim C1 as amended.  A field whose semantic class is \<open>password\<close> is the field of no
  mapping produced by \<open>mapFieldsToProfile\<close> or \<open>createSuggestedMappings\<close>, for every field
  list and every profile.
\<close>

theorem static_tiers_skip_password_class:
  "semanticClass f = SC_password \<Longrightarrow>
   f \<notin> fieldSignature ` set (mapFieldsToProfile flds profile)
   \<and> f \<notin> fieldSignature ` set (createSuggestedMappings flds profile)"
  by (auto simp: mapFieldsToProfile_def dest: mapFieldsLoop_sig suggested_sig)

theorem static_tiers_skip_password_class_witness:
  "semanticClass ex_password_field = SC_password
   \<and> ex_password_field
        \<notin> fieldSignature ` set (mapFieldsToProfile [ex_password_field, ex_otp_field] ex_contact_profile)
   \<and> ex_password_field
        \<notin> fieldSignature ` set (createSuggestedMappings [ex_password_field, ex_otp_field] ex_contact_profile)"
proof -
  have h: "semanticClass ex_password_field = SC_password" by code_simp
  show ?thesis
    using static_tiers_skip_password_class
            [OF h, of "[ex_password_field, ex_otp_field]" ex_contact_profile] h
    by simp
qed

section \<open>Full-name reconciliation\<close>

lemma hasClass_find:
  "hasClass flds c \<Longrightarrow> \<exists>t. find (\<lambda>f. semanticClass f = c) flds = Some t"
  unfolding hasClass_def list_ex_iff
  by (cases "find (\<lambda>f. semanticClass f = c) flds") (auto simp: find_None_iff)

lemma splitFullName_skip:
  "hasClass flds SC_full_name \<Longrightarrow> splitFullName flds pf ms = ms"
  by (simp add: splitFullName_def)

lemma valueOr_first:
  "findField pf k = Some a \<Longrightarrow> cf_value a \<noteq> [] \<Longrightarrow>
   valueOr (findField pf k) other = cf_value a"
  by (simp add: valueOr_def truthy_def orEmpty_def)

text \<open>
  Claim C8.  The profile has a field \<open>firstName\<close> and a field \<open>lastName\<close>, both with a
  non-empty value, and no field \<open>fullName\<close>; the form has a field of class \<open>full_name\<close> and
  none of class \<open>first_name\<close> or \<open>last_name\<close>.  Then, unless the three tiers already mapped
  the id of the first full-name field, \<open>createSuggestedMappings\<close> appends one mapping for
  that field: first name, one space, last name, confidence 0.9, source static.  If the id
  is already mapped, the tiers' result is returned unchanged.
\<close>

theorem full_name_joined_from_first_and_last:
  assumes first: "findField (pfields profile) ''firstName'' = Some a" "cf_value a \<noteq> []"
    and last: "findField (pfields profile) ''lastName'' = Some b" "cf_value b \<noteq> []"
    and nofull: "findField (pfields profile) ''fullName'' = None"
    and form: "hasClass flds SC_full_name" "\<not> hasClass flds SC_first_name"
              "\<not> hasClass flds SC_last_name"
  shows "\<exists>target. find (\<lambda>f. semanticClass f = SC_full_name) flds = Some target
     \<and> createSuggestedMappings flds profile =
         (if list_ex (\<lambda>m. fieldId m = fs_id target) (mapFieldsToProfile flds profile)
          then mapFieldsToProfile flds profile
          else mapFieldsToProfile flds profile @
                 [\<lparr>fieldSignature = target, mvalue = cf_value a @ '' '' @ cf_value b,
                   confidence = 0.9, msource = Src_static\<rparr>])"
proof -
  from form(1) obtain target
    where t: "find (\<lambda>f. semanticClass f = SC_full_name) flds = Some target"
    by (blast dest: hasClass_find)
  have "createSuggestedMappings flds profile =
          joinFullName flds (pfields profile) (mapFieldsToProfile flds profile)"
    by (simp add: createSuggestedMappings_def splitFullName_skip [OF form(1)])
  also have "\<dots> = pushIfUnmapped (mapFieldsToProfile flds profile) (Some target)
                     (cf_value a @ '' '' @ cf_value b)"
    using form nofull first(2) last(2)
    by (simp add: joinFullName_def t valueOr_first [OF first] valueOr_first [OF last])
  finally show ?thesis using t
    by (simp add: pushIfUnmapped_def mkStatic_def)
qed

theorem full_name_joined_from_first_and_last_witness:
  "findField (pfields ex_names_profile) ''firstName'' = Some (mkContextField ''firstName'' ''Ada'')
   \<and> findField (pfields ex_names_profile) ''lastName'' = Some (mkContextField ''lastName'' ''Lovelace'')
   \<and> findField (pfields ex_names_profile) ''fullName'' = None
   \<and> hasClass [ex_name_field] SC_full_name \<and> \<not> hasClass [ex_name_field] SC_first_name
   \<and> \<not> hasClass [ex_name_field] SC_last_name
   \<and> mapFieldsToProfile [ex_name_field] ex_names_profile = []
   \<and> createSuggestedMappings [ex_name_field] ex_names_profile =
        [\<lparr>fieldSignature = ex_name_field, mvalue = ''Ada Lovelace'',
          confidence = 0.9, msource = Src_static\<rparr>]"
proof -
  have h: "findField (pfields ex_names_profile) ''firstName'' = Some (mkContextField ''firstName'' ''Ada'')"
       "cf_value (mkContextField ''firstName'' ''Ada'') \<noteq> []"
       "findField (pfields ex_names_profile) ''lastName'' = Some (mkContextField ''lastName'' ''Lovelace'')"
       "cf_value (mkContextField ''lastName'' ''Lovelace'') \<noteq> []"
       "findField (pfields ex_names_profile) ''fullName'' = None"
       "hasClass [ex_name_field] SC_full_name" "\<not> hasClass [ex_name_field] SC_first_name"
       "\<not> hasClass [ex_name_field] SC_last_name"
    by code_simp+
  have m: "mapFieldsToProfile [ex_name_field] ex_names_profile = []" by code_simp
  have c: "semanticClass ex_name_field = SC_full_name" by code_simp
  show ?thesis
    using full_name_joined_from_first_and_last [OF h] h m c
    by (auto simp: mkContextField_def)
qed

section \<open>Vector search\<close>

lemma cosineLoop_sums:
  "length a = length b \<Longrightarrow>
   cosineLoop ops a b (d, na, nb) =
     (foldl (\<lambda>acc (x, y). fadd ops acc (fmul ops x y)) d (zip a b),
      foldl (\<lambda>acc (x, y). fadd ops acc (fmul ops x y)) na (zip a a),
      foldl (\<lambda>acc (x, y). fadd ops acc (fmul ops x y)) nb (zip b b))"
  by (induction a b arbitrary: d na nb rule: list_induct2) simp_all

lemma cosineSimilarity_formula:
  "cosineSimilarity ops a b =
     (if length a \<noteq> length b then 0
      else if fmul ops (fsqrt ops (sumProducts ops a a)) (fsqrt ops (sumProducts ops b b)) = 0
      then 0
      else fdiv ops (sumProducts ops a b)
             (fmul ops (fsqrt ops (sumProducts ops a a)) (fsqrt ops (sumProducts ops b b))))"
  by (simp add: cosineSimilarity_def cosineLoop_sums sumProducts_def Let_def)

lemma searchVectors_eq:
  "0 \<le> topK \<Longrightarrow>
   searchVectors ops vectors q topK threshold =
     take (nat topK) (sort_key (\<lambda>r. - similarity r) (qualifying ops vectors q threshold))"
  by (cases vectors) (simp_all add: searchVectors_def qualifying_def slice0_def)

lemma sorted_desc_sort_key:
  "sorted_wrt (\<lambda>a b. similarity a \<ge> similarity b) (sort_key (\<lambda>r. - similarity r) xs)"
proof -
  have "sorted (map (\<lambda>r. - similarity r) (sort_key (\<lambda>r. - similarity r) xs))"
    by (rule sorted_sort_key)
  then show ?thesis
    by (simp add: sorted_wrt_map)
qed

lemma sorted_wrt_take_drop:
  "sorted_wrt P xs \<Longrightarrow> x \<in> set (take k xs) \<Longrightarrow> y \<in> set (drop k xs) \<Longrightarrow> P x y"
proof -
  assume a: "sorted_wrt P xs" "x \<in> set (take k xs)" "y \<in> set (drop k xs)"
  from a(1) have "sorted_wrt P (take k xs @ drop k xs)" by simp
  with a(2,3) show ?thesis unfolding sorted_wrt_append by blast
qed

text \<open>
  Claim C7 as stated fails for a negative \<open>topK\<close>: \<open>slice(0, -1)\<close> drops the last element
  only, so a search with \<open>topK = -1\<close> over four entries that all pass the threshold
  returns three results, which is not at most \<open>topK\<close>.
\<close>

theorem negative_topK_cuts_from_the_tail:
  "searchVectors exactOps ex_vectors [1, 0] (- 1) 0 =
     [\<lparr>entry = mkVector ''v2'' [1, 0], similarity = 1\<rparr>,
      \<lparr>entry = mkVector ''v4'' [1, 0], similarity = 1\<rparr>,
      \<lparr>entry = mkVector ''v1'' [0, 1], similarity = 0\<rparr>]
   \<and> \<not> int (length (searchVectors exactOps ex_vectors [1, 0] (- 1) 0)) \<le> - 1"
  by (simp add: searchVectors_def ex_vectors_def scoreEntry_def cosineSimilarity_def
                mkVector_def slice0_def exactOps_def)

text \<open>
  Claim C7 as amended.  For every collection, query, threshold and \<open>topK \<ge> 0\<close>, whatever
  the rounding of the arithmetic: \<open>search\<close> returns scored entries of the collection, each
  with the similarity that the code computes for it (zero when the embedding has another
  length than the query or the magnitude is zero, otherwise the sum of products divided by
  the product of the roots of the two sums of squares) and with that similarity at least
  the threshold; they are sorted by similarity descending, as many as there are up to
  \<open>topK\<close>, and every qualifying entry left out scores no higher than any entry returned.
\<close>

theorem search_returns_top_matches:
  assumes k: "0 \<le> topK"
  shows "sorted_wrt (\<lambda>a b. similarity a \<ge> similarity b)
           (searchVectors ops vectors q topK threshold)
   \<and> length (searchVectors ops vectors q topK threshold)
        = min (nat topK) (length (qualifying ops vectors q threshold))
   \<and> mset (searchVectors ops vectors q topK threshold)
        \<subseteq># mset (qualifying ops vectors q threshold)
   \<and> (\<forall>r \<in> set (searchVectors ops vectors q topK threshold).
         entry r \<in> set vectors
         \<and> similarity r \<ge> threshold
         \<and> similarity r =
             (if length q \<noteq> length (embedding (entry r)) then 0
              else if fmul ops (fsqrt ops (sumProducts ops q q))
                        (fsqrt ops (sumProducts ops (embedding (entry r)) (embedding (entry r)))) = 0
              then 0
              else fdiv ops (sumProducts ops q (embedding (entry r)))
                     (fmul ops (fsqrt ops (sumProducts ops q q))
                        (fsqrt ops (sumProducts ops (embedding (entry r)) (embedding (entry r)))))))
   \<and> (\<forall>x \<in># mset (qualifying ops vectors q threshold)
                - mset (searchVectors ops vectors q topK threshold).
         \<forall>r \<in> set (searchVectors ops vectors q topK threshold). similarity x \<le> similarity r)
   \<and> (\<forall>v \<in> set vectors. length (embedding v) \<noteq> length q \<longrightarrow>
         similarity (scoreEntry ops q v) = 0)"
proof -
  let ?srt = "sort_key (\<lambda>r. - similarity r) (qualifying ops vectors q threshold)"
  let ?res = "searchVectors ops vectors q topK threshold"
  have res: "?res = take (nat topK) ?srt" by (rule searchVectors_eq [OF k])
  have srt: "sorted_wrt (\<lambda>a b. similarity a \<ge> similarity b) ?srt"
    by (rule sorted_desc_sort_key)
  have 1: "sorted_wrt (\<lambda>a b. similarity a \<ge> similarity b) ?res"
    unfolding res using srt by (rule sorted_wrt_take)
  have 2: "length ?res = min (nat topK) (length (qualifying ops vectors q threshold))"
    unfolding res by (simp add: min.commute)
  have split: "mset (qualifying ops vectors q threshold)
                 = mset ?res + mset (drop (nat topK) ?srt)"
  proof -
    have "mset ?srt = mset (take (nat topK) ?srt @ drop (nat topK) ?srt)" by simp
    then show ?thesis unfolding res by (simp del: append_take_drop_id)
  qed
  then have 3: "mset ?res \<subseteq># mset (qualifying ops vectors q threshold)" by simp
  have 4: "entry r \<in> set vectors \<and> similarity r \<ge> threshold
           \<and> similarity r = cosineSimilarity ops q (embedding (entry r))"
    if "r \<in> set ?res" for r
  proof -
    from that have "r \<in> set ?srt" unfolding res by (rule in_set_takeD)
    then have "r \<in> set (qualifying ops vectors q threshold)" by simp
    then show ?thesis by (auto simp: qualifying_def scoreEntry_def)
  qed
  have 5: "similarity x \<le> similarity r"
    if "x \<in># mset (qualifying ops vectors q threshold) - mset ?res" "r \<in> set ?res" for x r
  proof -
    from that(1) have "x \<in> set (drop (nat topK) ?srt)" by (simp add: split)
    moreover from that(2) have "r \<in> set (take (nat topK) ?srt)" by (simp add: res)
    ultimately show ?thesis using sorted_wrt_take_drop [OF srt] by blast
  qed
  have 6: "similarity (scoreEntry ops q v) = 0" if "length (embedding v) \<noteq> length q" for v
    using that by (auto simp: scoreEntry_def cosineSimilarity_def)
  from 1 2 3 4 5 6 show ?thesis
    unfolding cosineSimilarity_formula [symmetric] by blast
qed

theorem search_returns_top_matches_witness:
  "(0::int) \<le> 1
   \<and> searchVectors exactOps ex_vectors [1, 0] 1 0
        = [\<lparr>entry = mkVector ''v2'' [1, 0], similarity = 1\<rparr>]
   \<and> mkVector ''v3'' [1, 0, 0] \<in> set ex_vectors
   \<and> length (embedding (mkVector ''v3'' [1, 0, 0])) \<noteq> length [1, 0 :: real]
   \<and> similarity (scoreEntry exactOps [1, 0] (mkVector ''v3'' [1, 0, 0])) = 0
   \<and> length (qualifying exactOps ex_vectors [1, 0] 0) = 4"
proof -
  have k: "(0::int) \<le> 1" by simp
  have ev: "searchVectors exactOps ex_vectors [1, 0] 1 0
              = [\<lparr>entry = mkVector ''v2'' [1, 0], similarity = 1\<rparr>]"
    by (simp add: searchVectors_def ex_vectors_def scoreEntry_def cosineSimilarity_def
                  mkVector_def slice0_def exactOps_def)
  have q: "length (qualifying exactOps ex_vectors [1, 0] 0) = 4"
    by (simp add: qualifying_def ex_vectors_def scoreEntry_def cosineSimilarity_def
                  mkVector_def exactOps_def)
  show ?thesis
    using search_returns_top_matches [OF k, of exactOps ex_vectors "[1, 0]" 0] ev q
    by (simp add: ex_vectors_def mkVector_def)
qed

section \<open>Packing retrieved context into the token budget\<close>

lemma estimateTokens_nonneg: "0 \<le> estimateTokens t"
  by (simp add: estimateTokens_def CHARS_PER_TOKEN_def)

lemma tokensOf_nonneg: "0 \<le> tokensOf rs"
  unfolding tokensOf_def by (induction rs) (auto simp: estimateTokens_nonneg)

lemma tokensOf_Cons: "tokensOf (r # rs) = estimateTokens (ve_text (entry r)) + tokensOf rs"
  by (simp add: tokensOf_def)

lemma loop_all_fit:
  "tokenEstimate acc + tokensOf rs \<le> maxTokens \<Longrightarrow>
   buildContextLoop rs maxTokens acc =
     acc\<lparr>rcontext := rcontext acc @ map (\<lambda>r. ve_text (entry r)) rs,
         sources := sources acc @ map (\<lambda>r. mkSource r (ve_text (entry r))) rs,
         tokenEstimate := tokenEstimate acc + tokensOf rs\<rparr>"
proof (induction rs arbitrary: acc)
  case Nil
  then show ?case by (simp add: tokensOf_def)
next
  case (Cons r rs)
  have "0 \<le> tokensOf rs" by (rule tokensOf_nonneg)
  with Cons.prems have fit: "\<not> tokenEstimate acc + estimateTokens (ve_text (entry r)) > maxTokens"
    by (simp add: tokensOf_Cons)
  let ?acc = "acc\<lparr>rcontext := rcontext acc @ [ve_text (entry r)],
                   sources := sources acc @ [mkSource r (ve_text (entry r))],
                   tokenEstimate := tokenEstimate acc + estimateTokens (ve_text (entry r))\<rparr>"
  have "tokenEstimate ?acc + tokensOf rs \<le> maxTokens"
    using Cons.prems by (simp add: tokensOf_Cons)
  from Cons.IH [OF this] fit show ?case
    by (simp add: Let_def tokensOf_Cons)
qed

lemma loop_overflow:
  assumes "tokenEstimate acc + tokensOf pre \<le> maxTokens"
    and "tokenEstimate acc + tokensOf pre + estimateTokens (ve_text (entry r)) > maxTokens"
  shows "buildContextLoop (pre @ r # post) maxTokens acc =
     (let remainingTokens = maxTokens - (tokenEstimate acc + tokensOf pre);
          truncatedText = take (nat (remainingTokens * 4)) (ve_text (entry r))
      in acc\<lparr>rcontext := rcontext acc @ map (\<lambda>r. ve_text (entry r)) pre
                          @ (if remainingTokens > 50 then [truncatedText @ ''...''] else []),
             sources := sources acc @ map (\<lambda>r. mkSource r (ve_text (entry r))) pre
                          @ (if remainingTokens > 50 then [mkSource r truncatedText] else []),
             tokenEstimate := tokenEstimate acc + tokensOf pre\<rparr>)"
  using assms
proof (induction pre arbitrary: acc)
  case Nil
  then show ?case by (simp add: tokensOf_def Let_def CHARS_PER_TOKEN_def)
next
  case (Cons p pre)
  have "0 \<le> tokensOf pre" by (rule tokensOf_nonneg)
  with Cons.prems have fit: "\<not> tokenEstimate acc + estimateTokens (ve_text (entry p)) > maxTokens"
    by (simp add: tokensOf_Cons)
  let ?acc = "acc\<lparr>rcontext := rcontext acc @ [ve_text (entry p)],
                   sources := sources acc @ [mkSource p (ve_text (entry p))],
                   tokenEstimate := tokenEstimate acc + estimateTokens (ve_text (entry p))\<rparr>"
  have a: "tokenEstimate ?acc + tokensOf pre \<le> maxTokens"
    and b: "tokenEstimate ?acc + tokensOf pre + estimateTokens (ve_text (entry r)) > maxTokens"
    using Cons.prems by (simp_all add: tokensOf_Cons)
  from Cons.IH [OF a b] fit show ?case
    by (simp add: Let_def tokensOf_Cons add.assoc)
qed

text \<open>
  Claim C6 as stated fails at the boundary: with the default budget of 1500 tokens, a first
  entry of 1450 tokens leaves exactly 50, and the next entry (51 tokens) is dropped, not
  truncated.  The test in the code is \<open>remainingTokens > 50\<close>.
\<close>

theorem exactly_fifty_tokens_left_drops_entry:
  "tokenEstimate (buildContext ex_long_results 1500) = 1450
   \<and> 1500 - tokenEstimate (buildContext ex_long_results 1500) = 50
   \<and> rcontext (buildContext ex_long_results 1500) = [replicate 5800 CHR ''a'']"
  by (simp add: ex_long_results_def buildContext_def mkResult_def estimateTokens_def
                CHARS_PER_TOKEN_def Let_def)

text \<open>
  Claim C6 as amended.  Whole entries are accumulated in order while the running estimate
  stays within the budget.  At the first entry that would overflow, the packer stops: it
  appends that entry cut to four characters per remaining token, followed by the marker
  \<open>...\<close>, if and only if more than 50 tokens remain, and it adds no further entry.
\<close>

theorem context_packed_within_budget:
  "(tokensOf results \<le> maxTokens \<longrightarrow>
      rcontext (buildContext results maxTokens) = map (\<lambda>r. ve_text (entry r)) results
      \<and> tokenEstimate (buildContext results maxTokens) = tokensOf results)
   \<and> (tokensOf pre \<le> maxTokens \<and> tokensOf pre + estimateTokens (ve_text (entry r)) > maxTokens \<longrightarrow>
      rcontext (buildContext (pre @ r # post) maxTokens) =
        map (\<lambda>r. ve_text (entry r)) pre
        @ (if maxTokens - tokensOf pre > 50
           then [take (nat ((maxTokens - tokensOf pre) * 4)) (ve_text (entry r)) @ ''...'']
           else [])
      \<and> tokenEstimate (buildContext (pre @ r # post) maxTokens) = tokensOf pre)"
  unfolding buildContext_def
  by (auto simp: loop_all_fit loop_overflow Let_def)

theorem context_packed_within_budget_witness:
  "tokensOf [ex_fitting_result] \<le> 1500
   \<and> rcontext (buildContext [ex_fitting_result] 1500) = [replicate 5796 CHR ''a'']
   \<and> tokensOf [ex_fitting_result] + estimateTokens (ve_text (entry ex_overflowing_result)) > 1500
   \<and> 1500 - tokensOf [ex_fitting_result] = 51
   \<and> rcontext (buildContext ([ex_fitting_result] @ ex_overflowing_result # [ex_fitting_result]) 1500)
        = [replicate 5796 CHR ''a'', replicate 204 CHR ''b'' @ ''...'']"
proof -
  have h: "tokensOf [ex_fitting_result] = 1449"
          "estimateTokens (ve_text (entry ex_overflowing_result)) = 52"
    by (simp_all add: tokensOf_def ex_fitting_result_def ex_overflowing_result_def mkResult_def
                      estimateTokens_def CHARS_PER_TOKEN_def)
  have t: "ve_text (entry ex_fitting_result) = replicate 5796 CHR ''a''"
          "take 204 (ve_text (entry ex_overflowing_result)) = replicate 204 CHR ''b''"
    by (simp_all add: ex_fitting_result_def ex_overflowing_result_def mkResult_def min_def)
  show ?thesis
    using context_packed_within_budget
            [of "[ex_fitting_result]" 1500 "[ex_fitting_result]" ex_overflowing_result
                "[ex_fitting_result]"]
    by (simp add: h t)
qed

section \<open>Profile context of the prompt\<close>

text \<open>
  Claim C5.  The claim asks for a line \<open>key: value\<close> under the field's profile key.
  \<open>buildProfileContext\<close> takes \<open>Object.entries\<close> of the array \<open>staticContext.fields\<close>, so the
  text before the colon is the array index.  A profile with the plain fields \<open>firstName\<close>
  and \<open>email\<close> and an encrypted field between them yields the lines \<open>0: Ada\<close> and
  \<open>2: ada@x.org\<close>: the encrypted field is left out, the keys are lost.
\<close>

theorem profile_context_keys_are_array_indices:
  "buildProfileContext ex_profile_with_secret = ''0: Ada'' @ [CHR 0x0A] @ ''2: ada@x.org''"
  by code_simp

section \<open>Failure of a remote embedding request\<close>

lemma embedBatches_fail_now:
  "textsToEmbed \<noteq> [] \<Longrightarrow> remote n (take MAX_BATCH_SIZE textsToEmbed) = Inl e \<Longrightarrow>
   embedBatches remote useCache n textsToEmbed cache = (Inl e, cache)"
  by (subst embedBatches.simps) simp

lemma embedBatches_success_calls:
  "embedBatches remote useCache n textsToEmbed cache = (Inr r, cache') \<Longrightarrow>
   j * MAX_BATCH_SIZE < length textsToEmbed \<Longrightarrow>
   \<exists>response. remote (n + j) (batchNo j textsToEmbed) = Inr response"
proof (induction remote useCache n textsToEmbed cache arbitrary: r cache' j
       rule: embedBatches.induct)
  case (1 remote useCache n textsToEmbed cache)
  from "1.prems"(2) have ne: "textsToEmbed \<noteq> []" by auto
  let ?batch = "take MAX_BATCH_SIZE textsToEmbed"
  from "1.prems"(1) ne obtain response where resp: "remote n ?batch = Inr response"
    by (subst (asm) embedBatches.simps) (auto simp: Let_def split: sum.splits)
  from "1.prems"(1) ne resp obtain stored c1
    where st: "storeBatch useCache ?batch (edata response) cache = (Inr stored, c1)"
    by (subst (asm) embedBatches.simps)
       (auto simp: Let_def split: sum.splits prod.splits)
  from "1.prems"(1) ne resp st obtain r2 c2
    where rec: "embedBatches remote useCache (Suc n) (drop MAX_BATCH_SIZE textsToEmbed) c1
                  = (Inr r2, c2)"
    by (subst (asm) embedBatches.simps)
       (auto simp: Let_def split: sum.splits prod.splits)
  show ?case
  proof (cases j)
    case 0
    with resp show ?thesis by (simp add: batchNo_def)
  next
    case (Suc k)
    with "1.prems"(2) have "k * MAX_BATCH_SIZE < length (drop MAX_BATCH_SIZE textsToEmbed)"
      by simp
    from "1.IH" [OF ne refl resp st [symmetric] refl rec this]
    show ?thesis using Suc by (simp add: batchNo_def add.commute drop_drop)
  qed
qed

text \<open>
  Claim C9 as stated fails in its last part.  With 21 uncached texts the first request
  (20 texts) is answered and cached, the second is rate limited: the error reaches the
  caller, and the 20 vectors of the first request are in the cache.
\<close>

theorem earlier_batches_stay_cached_after_failure:
  "fst (embedBatch ex_remote [] ex_texts True)
     = Inl (OpenRouterError ''Rate limit exceeded'' RATE_LIMITED)
   \<and> length (snd (embedBatch ex_remote [] ex_texts True)) = 20
   \<and> map_of (snd (embedBatch ex_remote [] ex_texts True)) (hashText ''chunk 0'') = Some [1, 0]"
  by code_simp

lemma storeBatch_ok:
  "(useCache \<longrightarrow> length vs \<le> length batch) \<Longrightarrow>
   \<exists>stored. fst (storeBatch useCache batch vs cache) = Inr stored"
proof (induction vs arbitrary: batch cache)
  case Nil
  then show ?case by simp
next
  case (Cons v vs)
  show ?case
  proof (cases useCache)
    case True
    with Cons.prems obtain t rest where b: "batch = t # rest" by (cases batch) auto
    with Cons.prems True have "useCache \<longrightarrow> length vs \<le> length rest" by simp
    from Cons.IH [OF this, of "cacheEmbedding t v cache"] obtain stored
      where "fst (storeBatch useCache rest vs (cacheEmbedding t v cache)) = Inr stored" by blast
    then show ?thesis using True b
      by (cases "storeBatch useCache rest vs (cacheEmbedding t v cache)") (simp add: Let_def)
  next
    case False
    then have "useCache \<longrightarrow> length vs \<le> length (tl batch)" by simp
    from Cons.IH [OF this, of cache] obtain stored
      where "fst (storeBatch useCache (tl batch) vs cache) = Inr stored" by blast
    then show ?thesis using False
      by (cases "storeBatch useCache (tl batch) vs cache") (simp add: Let_def)
  qed
qed

lemma storeBatch_nocache: "snd (storeBatch False batch vs cache) = cache"
proof (induction vs arbitrary: batch)
  case Nil
  show ?case by simp
next
  case (Cons v vs)
  from Cons [of "tl batch"] show ?case
    by (cases "storeBatch False (tl batch) vs cache") (auto simp: Let_def split: sum.splits)
qed

lemma embedBatches_nocache: "snd (embedBatches remote False n textsToEmbed cache) = cache"
proof (induction remote "False" n textsToEmbed cache rule: embedBatches.induct)
  case (1 remote n textsToEmbed cache)
  show ?case
  proof (cases "textsToEmbed = []")
    case True
    then show ?thesis by (subst embedBatches.simps) simp
  next
    case ne: False
    let ?batch = "take MAX_BATCH_SIZE textsToEmbed"
    show ?thesis
    proof (cases "remote n ?batch")
      case (Inl e)
      with ne show ?thesis by (subst embedBatches.simps) simp
    next
      case (Inr response)
      obtain out c1 where st: "storeBatch False ?batch (edata response) cache = (out, c1)"
        by (cases "storeBatch False ?batch (edata response) cache") auto
      then have c1: "c1 = cache" using storeBatch_nocache [of ?batch "edata response" cache] by simp
      show ?thesis
      proof (cases out)
        case (Inl e)
        with ne Inr st c1 show ?thesis by (subst embedBatches.simps) simp
      next
        case inr: (Inr stored)
        from "1.hyps" [OF ne refl Inr st [symmetric] inr]
        have "snd (embedBatches remote False (Suc n) (drop MAX_BATCH_SIZE textsToEmbed) c1) = c1" .
        with ne Inr st inr c1 show ?thesis
          by (subst embedBatches.simps)
             (auto simp: Let_def split: sum.splits prod.splits)
      qed
    qed
  qed
qed

lemma embedBatches_first_failure:
  assumes "j * MAX_BATCH_SIZE < length textsToEmbed"
    and "remote (n + j) (batchNo j textsToEmbed) = Inl e"
    and "\<forall>k<j. \<exists>response. remote (n + k) (batchNo k textsToEmbed) = Inr response
            \<and> (useCache \<longrightarrow> length (edata response) \<le> length (batchNo k textsToEmbed))"
  shows "embedBatches remote useCache n textsToEmbed cache
           = (Inl e, storedThrough remote useCache n j textsToEmbed cache)"
  using assms
proof (induction j arbitrary: n textsToEmbed cache)
  case 0
  then have ne: "textsToEmbed \<noteq> []" by auto
  from 0 have "remote n (take MAX_BATCH_SIZE textsToEmbed) = Inl e" by (simp add: batchNo_def)
  with ne have "embedBatches remote useCache n textsToEmbed cache = (Inl e, cache)"
    by (intro embedBatches_fail_now)
  then show ?case by simp
next
  case (Suc j)
  let ?batch = "take MAX_BATCH_SIZE textsToEmbed"
  let ?rest = "drop MAX_BATCH_SIZE textsToEmbed"
  from Suc.prems(1) have ne: "textsToEmbed \<noteq> []" by auto
  from Suc.prems(3) obtain response
    where resp: "remote n ?batch = Inr response"
      and wf: "useCache \<longrightarrow> length (edata response) \<le> length ?batch"
    by (force simp: batchNo_def)
  from storeBatch_ok [OF wf] obtain stored
    where "fst (storeBatch useCache ?batch (edata response) cache) = Inr stored" by blast
  then obtain c1 where st: "storeBatch useCache ?batch (edata response) cache = (Inr stored, c1)"
    by (cases "storeBatch useCache ?batch (edata response) cache") auto
  have shift: "batchNo (Suc k) textsToEmbed = batchNo k ?rest" for k
    by (simp add: batchNo_def add.commute)
  have a: "j * MAX_BATCH_SIZE < length ?rest" using Suc.prems(1) by simp
  have b: "remote (Suc n + j) (batchNo j ?rest) = Inl e"
    using Suc.prems(2) by (simp add: shift)
  have c: "\<forall>k<j. \<exists>response. remote (Suc n + k) (batchNo k ?rest) = Inr response
             \<and> (useCache \<longrightarrow> length (edata response) \<le> length (batchNo k ?rest))"
  proof (intro allI impI)
    fix k assume "k < j"
    then have "Suc k < Suc j" by simp
    with Suc.prems(3) show "\<exists>response. remote (Suc n + k) (batchNo k ?rest) = Inr response
             \<and> (useCache \<longrightarrow> length (edata response) \<le> length (batchNo k ?rest))"
      unfolding shift [symmetric] by (metis add_Suc_shift)
  qed
  have rec: "embedBatches remote useCache (Suc n) ?rest c1
               = (Inl e, storedThrough remote useCache (Suc n) j ?rest c1)"
    using a b c by (rule Suc.IH)
  have "embedBatches remote useCache n textsToEmbed cache
          = (Inl e, storedThrough remote useCache (Suc n) j ?rest c1)"
    using ne resp st rec by (subst embedBatches.simps) (simp add: Let_def)
  moreover have "storedThrough remote useCache n (Suc j) textsToEmbed cache
          = storedThrough remote useCache (Suc n) j ?rest c1"
    using resp st by simp
  ultimately show ?case by simp
qed

text \<open>
  Claim C9 as amended.  If a request that \<open>embedBatch\<close> makes or would make fails,
  \<open>embedBatch\<close> ends with an error thrown and returns no list of vectors.  When the requests
  before the failing one were answered (with at most one vector per text when caching is
  on), the error thrown is that of the failing request, and the cache is left exactly as
  the answered requests left it: the failing request writes nothing.  So the cache is
  unchanged when the first request fails, and always when caching is off.
\<close>

theorem embedBatch_failure_propagates:
  "(j * MAX_BATCH_SIZE < length (textsToEmbedOf useCache cache texts)
      \<and> remote j (batchNo j (textsToEmbedOf useCache cache texts)) = Inl e
    \<longrightarrow> (\<exists>e'. fst (embedBatch remote cache texts useCache) = Inl e'))
   \<and> (j * MAX_BATCH_SIZE < length (textsToEmbedOf useCache cache texts)
      \<and> remote j (batchNo j (textsToEmbedOf useCache cache texts)) = Inl e
      \<and> (\<forall>k<j. \<exists>response.
             remote k (batchNo k (textsToEmbedOf useCache cache texts)) = Inr response
             \<and> (useCache \<longrightarrow> length (edata response)
                    \<le> length (batchNo k (textsToEmbedOf useCache cache texts))))
    \<longrightarrow> embedBatch remote cache texts useCache
          = (Inl e, storedThrough remote useCache 0 j (textsToEmbedOf useCache cache texts) cache))
   \<and> (textsToEmbedOf useCache cache texts \<noteq> []
      \<and> remote 0 (batchNo 0 (textsToEmbedOf useCache cache texts)) = Inl e
    \<longrightarrow> embedBatch remote cache texts useCache = (Inl e, cache))
   \<and> snd (embedBatch remote cache texts False) = cache"
proof -
  obtain results tte tim where cc: "checkCache useCache cache texts 0 = (results, tte, tim)"
    by (cases "checkCache useCache cache texts 0") auto
  then have tte: "textsToEmbedOf useCache cache texts = tte"
    by (simp add: textsToEmbedOf_def)
  have ne: "texts \<noteq> []" if "tte \<noteq> []"
    using that cc by (cases texts) auto
  have 1: "\<exists>e'. fst (embedBatch remote cache texts useCache) = Inl e'"
    if lt: "j * MAX_BATCH_SIZE < length tte" and f: "remote j (batchNo j tte) = Inl e"
  proof (cases "embedBatches remote useCache 0 tte cache")
    case (Pair out c')
    from lt have t: "tte \<noteq> []" by auto
    show ?thesis
    proof (cases out)
      case (Inl e')
      with Pair t ne [OF t] cc show ?thesis by (simp add: embedBatch_def)
    next
      case (Inr r)
      with Pair have "embedBatches remote useCache 0 tte cache = (Inr r, c')" by simp
      from embedBatches_success_calls [OF this lt] f show ?thesis by simp
    qed
  qed
  have 2: "embedBatch remote cache texts useCache
             = (Inl e, storedThrough remote useCache 0 j tte cache)"
    if lt: "j * MAX_BATCH_SIZE < length tte" and f: "remote j (batchNo j tte) = Inl e"
      and ok: "\<forall>k<j. \<exists>response. remote k (batchNo k tte) = Inr response
                 \<and> (useCache \<longrightarrow> length (edata response) \<le> length (batchNo k tte))"
  proof -
    from lt have t: "tte \<noteq> []" by auto
    have "embedBatches remote useCache 0 tte cache
            = (Inl e, storedThrough remote useCache 0 j tte cache)"
      using lt f ok by (intro embedBatches_first_failure) simp_all
    with t ne [OF t] cc show ?thesis by (simp add: embedBatch_def)
  qed
  have 3: "embedBatch remote cache texts useCache = (Inl e, cache)"
    if t: "tte \<noteq> []" and f: "remote 0 (batchNo 0 tte) = Inl e"
  proof -
    from f have "remote 0 (take MAX_BATCH_SIZE tte) = Inl e" by (simp add: batchNo_def)
    then have "embedBatches remote useCache 0 tte cache = (Inl e, cache)"
      using t by (intro embedBatches_fail_now)
    with t ne [OF t] cc show ?thesis
      by (simp add: embedBatch_def)
  qed
  have 4: "snd (embedBatch remote cache texts False) = cache"
  proof -
    obtain r2 t2 i2 where c2: "checkCache False cache texts 0 = (r2, t2, i2)"
      by (cases "checkCache False cache texts 0") auto
    show ?thesis
      using embedBatches_nocache [of remote 0 t2 cache]
      by (cases "embedBatches remote False 0 t2 cache")
         (auto simp: embedBatch_def c2 split: sum.splits prod.splits)
  qed
  from 1 2 3 4 show ?thesis unfolding tte by blast
qed

theorem embedBatch_failure_propagates_witness:
  "1 * MAX_BATCH_SIZE < length (textsToEmbedOf True [] ex_texts)
   \<and> ex_remote 1 (batchNo 1 (textsToEmbedOf True [] ex_texts))
        = Inl (OpenRouterError ''Rate limit exceeded'' RATE_LIMITED)
   \<and> (\<exists>response.
          ex_remote 0 (batchNo 0 (textsToEmbedOf True [] ex_texts)) = Inr response
          \<and> length (edata response) \<le> length (batchNo 0 (textsToEmbedOf True [] ex_texts)))
   \<and> embedBatch ex_remote [] ex_texts True
        = (Inl (OpenRouterError ''Rate limit exceeded'' RATE_LIMITED),
           storedThrough ex_remote True 0 1 (textsToEmbedOf True [] ex_texts) [])
   \<and> textsToEmbedOf True [] ex_texts \<noteq> []
   \<and> ex_remote_down 0 (batchNo 0 (textsToEmbedOf True [] ex_texts))
        = Inl (OpenRouterError ''Service unavailable'' SERVER_ERROR)
   \<and> embedBatch ex_remote_down [] ex_texts True
        = (Inl (OpenRouterError ''Service unavailable'' SERVER_ERROR), [])"
proof -
  have a: "1 * MAX_BATCH_SIZE < length (textsToEmbedOf True [] ex_texts)"
    by code_simp
  have b: "ex_remote 1 (batchNo 1 (textsToEmbedOf True [] ex_texts))
             = Inl (OpenRouterError ''Rate limit exceeded'' RATE_LIMITED)"
    by (simp add: ex_remote_def)
  have ok: "\<forall>k<1. \<exists>response.
          ex_remote k (batchNo k (textsToEmbedOf True [] ex_texts)) = Inr response
          \<and> (True \<longrightarrow> length (edata response)
                 \<le> length (batchNo k (textsToEmbedOf True [] ex_texts)))"
    by (simp add: ex_remote_def)
  have c: "textsToEmbedOf True [] ex_texts \<noteq> []"
    using a by auto
  have d: "ex_remote_down 0 (batchNo 0 (textsToEmbedOf True [] ex_texts))
             = Inl (OpenRouterError ''Service unavailable'' SERVER_ERROR)"
    by (simp add: ex_remote_down_def)
  have 1: "embedBatch ex_remote [] ex_texts True
        = (Inl (OpenRouterError ''Rate limit exceeded'' RATE_LIMITED),
           storedThrough ex_remote True 0 1 (textsToEmbedOf True [] ex_texts) [])"
    using embedBatch_failure_propagates
            [of 1 True "[]" ex_texts ex_remote "OpenRouterError ''Rate limit exceeded'' RATE_LIMITED"]
          a b ok
    by blast
  have 2: "embedBatch ex_remote_down [] ex_texts True
        = (Inl (OpenRouterError ''Service unavailable'' SERVER_ERROR), [])"
    using embedBatch_failure_propagates
            [of 0 True "[]" ex_texts ex_remote_down "OpenRouterError ''Service unavailable'' SERVER_ERROR"]
          c d
    by blast
  have ok0: "\<exists>response.
          ex_remote 0 (batchNo 0 (textsToEmbedOf True [] ex_texts)) = Inr response
          \<and> length (edata response) \<le> length (batchNo 0 (textsToEmbedOf True [] ex_texts))"
    using ok by simp
  from a b ok0 1 c d 2 show ?thesis by blast
qed

section \<open>Response cache: initialisation and hits\<close>

lemma cacheInit_returns_only_initialized:
  "cacheInit w = Some w' \<Longrightarrow> initialized w"
proof -
  have "\<forall>v v'. cacheInit v = Some v' \<longrightarrow> initialized v"
  proof (induction rule: cacheInit.fixp_induct)
    case 1
    show ?case by (rule option_admissible)
  next
    case 2
    show ?case by simp
  next
    case (3 init)
    then show ?case
      by (auto simp: Option.bind_eq_Some_conv split: if_splits)
  qed
  then show "cacheInit w = Some w' \<Longrightarrow> initialized w" by blast
qed

lemma cacheInit_diverges: "\<not> initialized w \<Longrightarrow> cacheInit w = None"
  using cacheInit_returns_only_initialized [of w] by (cases "cacheInit w") auto

lemma cacheInit_done: "initialized w \<Longrightarrow> cacheInit w = Some w"
  by (subst cacheInit.simps) simp

lemma cacheInit_unfold:
  "cacheInit w =
     (if initialized w then Some w
      else Option.bind (cleanExpired w) (\<lambda>w2. Some (w2\<lparr>initialized := True\<rparr>)))"
  unfolding cleanExpired_def by (subst cacheInit.simps) simp

text \<open>
  Claim C10.  On every \<open>CacheService\<close> as its constructor leaves it, \<open>init\<close> does not
  return, and so neither does \<open>get\<close>: no entry is found, no hit is counted, nothing is
  written back.  This holds for every TTL, store, time, form and profile.
\<close>

theorem cache_get_never_returns:
  "cacheInit (newCacheService ttl st t) = None
   \<and> cacheGet (newCacheService ttl st t) formSignature pid = None"
proof -
  have "\<not> initialized (newCacheService ttl st t)" by (simp add: newCacheService_def)
  then have "cacheInit (newCacheService ttl st t) = None" by (rule cacheInit_diverges)
  then show ?thesis by (simp add: cacheGet_def)
qed

text \<open>
  What the body of \<open>get\<close> would do on an instance whose flag were set: a hit is returned
  with its counter incremented and written back to expire one TTL after the time of the hit.
\<close>

lemma cacheGet_hit_slides_expiry:
  assumes "initialized w"
    and "getCache (buildCacheKey formSignature pid) (now w) (store w) = (Some cached, st)"
    and "ttlMs w \<noteq> 0"
  shows "\<exists>w'. cacheGet w formSignature pid = Some (Some (cached\<lparr>hitCount := hitCount cached + 1\<rparr>), w')
     \<and> map_option expiresAt (store w' (buildCacheKey formSignature pid)) = Some (Some (now w + ttlMs w))
     \<and> map_option (hitCount \<circ> ce_value) (store w' (buildCacheKey formSignature pid)) = Some (hitCount cached + 1)"
  using assms
  by (simp add: cacheGet_def cacheInit_done cacheGetBody_def setCache_def Let_def)

section \<open>Orchestrator: fallback and the response cache\<close>

lemma fillTry_calls:
  "llmCalls (snd (fillTry cfg coll st request)) = llmCalls st + 1
   \<and> respCache (snd (fillTry cfg coll st request)) = respCache st
   \<and> orchInitialized (snd (fillTry cfg coll st request)) = orchInitialized st"
  by (simp add: fillTry_def Let_def split: sum.splits)

lemma fillTry_source:
  "fst (fillTry cfg coll st request) = Inr r \<Longrightarrow> fsource r \<noteq> FS_cached"
  by (auto simp: fillTry_def Let_def staticFill_def split: sum.splits if_splits)

lemma fillCatch_source:
  "fillCatch cfg form prof e = Inr r \<Longrightarrow> fsource r \<noteq> FS_cached"
  by (auto simp: fillCatch_def staticFill_def split: if_splits)

lemma fillTry_state_indep:
  "fst (fillTry cfg coll st request) = fst (fillTry cfg coll st' request)"
  by (simp add: fillTry_def Let_def split: sum.splits)

lemma fill_unfold:
  "fill cfg coll st request =
     (if \<not> orchInitialized st \<and> \<not> configLoads coll
      then (Inl (OpenRouterError ''Failed to load configuration'' UNKNOWN), st)
      else if \<not> isConfigured coll
      then (Inr (staticFill (req_formSignature request) (req_profile request) ''API key not configured''),
            st\<lparr>orchInitialized := True\<rparr>)
      else (case fst (fillTry cfg coll (st\<lparr>orchInitialized := True\<rparr>) request) of
              Inl e \<Rightarrow> fillCatch cfg (req_formSignature request) (req_profile request) e
            | Inr response \<Rightarrow> Inr response,
            snd (fillTry cfg coll (st\<lparr>orchInitialized := True\<rparr>) request)))"
  by (cases "fillTry cfg coll (st\<lparr>orchInitialized := True\<rparr>) request")
     (auto simp: fill_def Let_def split: sum.splits)

lemma staticFill_fields:
  "fmappings (staticFill form prof reason) = createSuggestedMappings (ffields form) prof
   \<and> fsource (staticFill form prof reason) = FS_static
   \<and> \<not> llmUsed (staticFill form prof reason)
   \<and> fallbackReason (staticFill form prof reason) = Some reason"
  by (simp add: staticFill_def)

text \<open>
  Claim C2.  Once the client configuration has loaded, \<open>fill\<close> with the default
  configuration returns a response whatever the remote model does.  Without an API key,
  when the chat request throws (invalid key, rate limit or any other error), when the
  first choice has no content, and when the validator marks the content invalid, the
  response holds the mappings of \<open>createSuggestedMappings\<close> on the request's fields and
  profile, source \<open>static\<close>, no LLM use, no token count, and the reason of the fallback.
\<close>

theorem fill_never_throws_by_default:
  assumes init: "orchInitialized st \<or> configLoads coll"
  shows "(\<exists>r. fst (fill DEFAULT_CONFIG coll st request) = Inr r)
   \<and> (\<not> isConfigured coll \<longrightarrow>
        fst (fill DEFAULT_CONFIG coll st request)
          = Inr \<lparr>fmappings = createSuggestedMappings (ffields (req_formSignature request))
                               (req_profile request),
                 fsource = FS_static, llmUsed = False, ftokensUsed = None,
                 fallbackReason = Some ''API key not configured''\<rparr>)
   \<and> (\<forall>e. isConfigured coll \<and> chatCompletion coll (promptOf coll request) = Inl e \<longrightarrow>
        fst (fill DEFAULT_CONFIG coll st request)
          = Inr \<lparr>fmappings = createSuggestedMappings (ffields (req_formSignature request))
                               (req_profile request),
                 fsource = FS_static, llmUsed = False, ftokensUsed = None,
                 fallbackReason =
                   Some (if hasCode e INVALID_API_KEY then ''Invalid API key''
                         else if hasCode e RATE_LIMITED then ''Rate limited''
                         else reasonOf e)\<rparr>)
   \<and> (\<forall>response. isConfigured coll
          \<and> chatCompletion coll (promptOf coll request) = Inr response
          \<and> \<not> truthy (firstContent response) \<longrightarrow>
        fst (fill DEFAULT_CONFIG coll st request)
          = Inr \<lparr>fmappings = createSuggestedMappings (ffields (req_formSignature request))
                               (req_profile request),
                 fsource = FS_static, llmUsed = False, ftokensUsed = None,
                 fallbackReason = Some ''Empty response from LLM''\<rparr>)
   \<and> (\<forall>response. isConfigured coll
          \<and> chatCompletion coll (promptOf coll request) = Inr response
          \<and> truthy (firstContent response)
          \<and> \<not> valid (validate coll (orEmpty (firstContent response))
                        (req_formSignature request)) \<longrightarrow>
        fst (fill DEFAULT_CONFIG coll st request)
          = Inr \<lparr>fmappings = createSuggestedMappings (ffields (req_formSignature request))
                               (req_profile request),
                 fsource = FS_static, llmUsed = False, ftokensUsed = None,
                 fallbackReason = Some ''LLM response validation failed''\<rparr>)"
  using init
  by (auto simp: fill_unfold fillTry_def fillCatch_def staticFill_def DEFAULT_CONFIG_def Let_def
                 promptOf_def firstContent_def hasCode_def reasonOf_def
           split: sum.splits)

theorem fill_never_throws_by_default_witness:
  "(orchInitialized ex_state \<or> configLoads ex_failing_collaborators)
   \<and> isConfigured ex_failing_collaborators
   \<and> chatCompletion ex_failing_collaborators (promptOf ex_failing_collaborators ex_name_request)
       = Inl (OpenRouterError ''Server error'' SERVER_ERROR)
   \<and> fst (fill DEFAULT_CONFIG ex_failing_collaborators ex_state ex_name_request)
       = Inr \<lparr>fmappings = [\<lparr>fieldSignature = ex_name_field, mvalue = ''Ada Lovelace'',
                              confidence = 0.9, msource = Src_static\<rparr>],
              fsource = FS_static, llmUsed = False, ftokensUsed = None,
              fallbackReason = Some ''Server error''\<rparr>"
proof -
  have h: "orchInitialized ex_state \<or> configLoads ex_failing_collaborators"
    by (simp add: ex_failing_collaborators_def ex_collaborators_def)
  have c: "isConfigured ex_failing_collaborators"
    "chatCompletion ex_failing_collaborators (promptOf ex_failing_collaborators ex_name_request)
       = Inl (OpenRouterError ''Server error'' SERVER_ERROR)"
    by (simp_all add: ex_failing_collaborators_def ex_collaborators_def)
  have sm: "createSuggestedMappings [ex_name_field] ex_names_profile
              = [\<lparr>fieldSignature = ex_name_field, mvalue = ''Ada Lovelace'',
                   confidence = 0.9, msource = Src_static\<rparr>]"
    by code_simp
  show ?thesis
    using fill_never_throws_by_default [OF h, of ex_name_request] h c
    by (simp add: hasCode_def reasonOf_def ex_name_request_def sm)
qed

text \<open>
  Claim C3.  The claim asks for the response cache to be consulted before the LLM.  The
  cache holds an unexpired entry under the key of the form and the profile, the form's
  only field is unmapped, the LLM is available and the request carries \<open>useCache = true\<close>:
  \<open>fill\<close> and the \<open>TRIGGER_FILL\<close> flow send one chat request and return the model's value,
  not the cached one, with provenance \<open>llm\<close> and \<open>combined\<close>, never \<open>cached\<close>.
\<close>

theorem cache_hit_still_calls_llm:
  "fst (getCache (buildCacheKey ex_form (profile_id ex_names_profile)) 5000 (respCache ex_state))
     = Some ex_cached
   \<and> isConfigured ex_collaborators
   \<and> unmappedFieldsOf ex_form (createSuggestedMappings (ffields ex_form) ex_names_profile)
       = ffields ex_form
   \<and> ffields ex_form \<noteq> []
   \<and> llmCalls (snd (fill DEFAULT_CONFIG ex_collaborators ex_state ex_request)) = 1
   \<and> fst (fill DEFAULT_CONFIG ex_collaborators ex_state ex_request)
       = Inr \<lparr>fmappings = [\<lparr>fieldSignature = hd (ffields ex_form), mvalue = ''I like it'',
                              confidence = 0.9, msource = Src_llm\<rparr>],
              fsource = FS_llm, llmUsed = True, ftokensUsed = Some 321, fallbackReason = None\<rparr>
   \<and> llmCalls (snd (triggerFill DEFAULT_CONFIG ex_collaborators ex_state ex_form ex_names_profile)) = 1
   \<and> fst (triggerFill DEFAULT_CONFIG ex_collaborators ex_state ex_form ex_names_profile)
       = ([\<lparr>fieldSignature = hd (ffields ex_form), mvalue = ''I like it'',
            confidence = 0.9, msource = Src_llm\<rparr>], TS_combined)"
proof -
  let ?q1 = "mkField ''q1'' IT_textarea ''motivation'' SC_unknown noAttributes"
  have flds: "ffields ex_form = [?q1]" by (simp add: ex_form_def)
  have hit: "fst (getCache (buildCacheKey ex_form (profile_id ex_names_profile)) 5000
                (respCache ex_state)) = Some ex_cached"
    by (simp add: ex_state_def ex_store_def ex_names_profile_def mkProfile_def getCache_def
                  setCache_def DEFAULT_TTL_MS_def)
  have sm: "createSuggestedMappings [?q1] ex_names_profile = []" by code_simp
  have dl: "\<not> isFieldDenylisted ?q1" by code_simp
  have tr: "trim ''I like it'' = ''I like it''" by code_simp
  have un: "unmappedFieldsOf ex_form [] = [?q1]"
    by (simp add: unmappedFieldsOf_def flds) (simp add: mkField_def)
  have vt: "validateValueType ex_collaborators ''I like it'' ?q1 = (0.9, None)"
    by (simp add: validateValueType_def ex_collaborators_def mkField_def Let_def)
  have pj: "parseJSON ex_collaborators raw = Inr [(''q1'', ''I like it'')]" for raw
    by (simp add: ex_collaborators_def)
  have fm: "fieldMapOf [?q1] ''q1'' = Some ?q1"
    by (simp add: fieldMapOf_def mkField_def)
  have va: "validate ex_collaborators raw form
              = \<lparr>valid = True,
                 vmappings = [\<lparr>fieldSignature = ?q1, mvalue = ''I like it'',
                               confidence = 0.9, msource = Src_llm\<rparr>],
                 errors = [], warnings = []\<rparr>" if "ffields form = [?q1]" for raw form
    by (simp add: validate_def pj fm dl tr vt that)
  have cc: "chatCompletion ex_collaborators prompt
              = Inr \<lparr>choices = [Some ''{\"q1\": \"I like it\"}''], usageTotalTokens = 321\<rparr>"
    for prompt
    by (simp add: ex_collaborators_def)
  have cfgd: "isConfigured ex_collaborators" "configLoads ex_collaborators"
    by (simp_all add: ex_collaborators_def)
  have mg: "mergeWithStaticMappings [m] [] = [m]" for m
    by (simp add: mergeWithStaticMappings_def overrideLLM_def)
  have fl: "fill DEFAULT_CONFIG ex_collaborators ex_state
              \<lparr>req_formSignature = form, req_profile = ex_names_profile,
               req_ragContext = None, req_useCache = Some True\<rparr>
            = (Inr \<lparr>fmappings = [\<lparr>fieldSignature = ?q1, mvalue = ''I like it'',
                                   confidence = 0.9, msource = Src_llm\<rparr>],
                    fsource = FS_llm, llmUsed = True, ftokensUsed = Some 321,
                    fallbackReason = None\<rparr>,
               ex_state\<lparr>orchInitialized := True, llmCalls := 1\<rparr>)"
    if f: "ffields form = [?q1]" for form
    by (simp add: fill_def fillTry_def Let_def cc cfgd truthy_def orEmpty_def va [OF f] f sm mg)
       (simp add: ex_state_def)
  have f0: "ffields (ex_form\<lparr>ffields := [?q1]\<rparr>) = [?q1]" by simp
  have tf: "triggerFill DEFAULT_CONFIG ex_collaborators ex_state ex_form ex_names_profile
            = (([\<lparr>fieldSignature = ?q1, mvalue = ''I like it'',
                   confidence = 0.9, msource = Src_llm\<rparr>], TS_combined),
               ex_state\<lparr>orchInitialized := True, llmCalls := 1\<rparr>)"
    by (simp add: triggerFill_def Let_def flds sm un cfgd fl [OF f0])
  show ?thesis
    using hit cfgd(1) un fl [OF flds] tf
    by (simp add: flds sm ex_request_def)
qed

text \<open>
  In general \<open>fill\<close> reads neither the cache nor the request's \<open>useCache\<close> flag: with the
  LLM available it sends exactly one chat request, whatever the cache holds.
\<close>

lemma fillTry_reads_no_flag:
  "fillTry cfg coll st (request\<lparr>req_useCache := u\<rparr>) = fillTry cfg coll st request"
  by (simp add: fillTry_def Let_def)

lemma fill_reads_no_flag:
  "fill cfg coll st (request\<lparr>req_useCache := u\<rparr>) = fill cfg coll st request"
  by (simp add: fill_def fillTry_reads_no_flag Let_def split: prod.splits sum.splits)

lemma fill_reads_no_cache:
  assumes init: "orchInitialized st \<or> configLoads coll" and avail: "isConfigured coll"
  shows "llmCalls (snd (fill cfg coll st request)) = llmCalls st + 1
   \<and> respCache (snd (fill cfg coll st request)) = respCache st
   \<and> fst (fill cfg coll (st\<lparr>respCache := c\<rparr>) request) = fst (fill cfg coll st request)
   \<and> (\<forall>r. fst (fill cfg coll st request) = Inr r \<longrightarrow> fsource r \<noteq> FS_cached)
   \<and> (length (unmappedFieldsOf form (createSuggestedMappings (ffields form) prof)) > 0 \<longrightarrow>
        llmCalls (snd (triggerFill cfg coll st form prof)) = llmCalls st + 1
        \<and> respCache (snd (triggerFill cfg coll st form prof)) = respCache st)"
proof -
  let ?st0 = "st\<lparr>orchInitialized := True\<rparr>"
  have f: "fill cfg coll st request =
             (case fst (fillTry cfg coll ?st0 request) of
                Inl e \<Rightarrow> fillCatch cfg (req_formSignature request) (req_profile request) e
              | Inr response \<Rightarrow> Inr response,
              snd (fillTry cfg coll ?st0 request))"
    using init avail by (auto simp: fill_unfold)
  have 1: "llmCalls (snd (fill cfg coll st request)) = llmCalls st + 1"
    and 2: "respCache (snd (fill cfg coll st request)) = respCache st"
    using fillTry_calls [of cfg coll ?st0 request] by (simp_all add: f)
  have 3: "fst (fill cfg coll (st\<lparr>respCache := c\<rparr>) request) = fst (fill cfg coll st request)"
    using init avail
          fillTry_state_indep [of cfg coll "st\<lparr>respCache := c, orchInitialized := True\<rparr>" request ?st0]
    by (auto simp: fill_unfold)
  have 4: "fsource r \<noteq> FS_cached" if "fst (fill cfg coll st request) = Inr r" for r
    using that
    by (auto simp: f split: sum.splits dest: fillTry_source fillCatch_source)
  have g: "llmCalls (snd (fill cfg coll st rq)) = llmCalls st + 1
           \<and> respCache (snd (fill cfg coll st rq)) = respCache st" for rq
    using init avail fillTry_calls [of cfg coll ?st0 rq] by (auto simp: fill_unfold)
  have 5: "llmCalls (snd (triggerFill cfg coll st form prof)) = llmCalls st + 1
           \<and> respCache (snd (triggerFill cfg coll st form prof)) = respCache st"
    if "length (unmappedFieldsOf form (createSuggestedMappings (ffields form) prof)) > 0"
  proof -
    let ?rq = "\<lparr>req_formSignature = form\<lparr>ffields := unmappedFieldsOf form
                    (createSuggestedMappings (ffields form) prof)\<rparr>,
                req_profile = prof, req_ragContext = None, req_useCache = Some True\<rparr>"
    show ?thesis
      using that avail g [of ?rq]
      by (cases "fill cfg coll st ?rq")
         (auto simp: triggerFill_def Let_def split: sum.splits)
  qed
  from 1 2 3 4 5 show ?thesis by blast
qed

end
